theory Spec2Isabelle
  imports Main "HOL-Library.Word"
begin

section \<open>Values that cross the binary interface\<close>

text \<open>
  The headers declare interface classes whose public methods are inline wrappers around
  raw methods implemented by the host engine. The model keeps the host engine as a
  parameter: an object is the table of its raw methods, each a function on an opaque host
  state \<open>'h\<close>. Every call through such a table is recorded in a trace, so that "which raw
  method was reached, how often and with which arguments" is a property of the model.
\<close>

type_synonym size_t = "64 word"
  \<comment> \<open>\<open>size_t\<close> of a 64-bit target\<close>

type_synonym cpp_int = "32 word"
  \<comment> \<open>\<open>int\<close>\<close>

type_synonym double = "64 word"
  \<comment> \<open>\<open>double\<close>, as its binary64 bit pattern: the wrappers only pass it on\<close>

type_synonym raw_ptr = "nat option"
  \<comment> \<open>\<open>T*\<close> to a host object: \<open>None\<close> is \<open>nullptr\<close>, \<open>Some a\<close> the object at address \<open>a\<close>\<close>

type_synonym c_str = "char list option"
  \<comment> \<open>\<open>char*\<close>: \<open>nullptr\<close>, or the characters stored in the array it points at\<close>

type_synonym 'a array_ptr = "'a list option"
  \<comment> \<open>\<open>T**\<close>: \<open>nullptr\<close>, or the entries of the array it points at\<close>

text \<open>
  Modelled from the spec: \<open>core::Ptr\<close> (declared in Core/Base.h and Core/Memory.h, which
  are not among the sources) is the "shared smart-pointer type" that holds a host object;
  \<open>Ptr p\<close> is the handle constructed from the raw pointer \<open>p\<close>, \<open>get\<close> gives the raw
  pointer back, and the handle is null exactly when that pointer is. Reference counts
  live in the host and are not represented.
\<close>

datatype Ptr = Ptr (get: raw_ptr)

definition is_null :: "Ptr \<Rightarrow> bool" where
  "is_null p \<longleftrightarrow> get p = None"

text \<open>
  \<open>enum ConstraintTypes\<close> of Sim/SimTypeDefs.h. An unscoped enumeration is held as its
  underlying integer, so a value outside the six enumerators is representable.
\<close>

type_synonym ConstraintTypes = "32 word"

definition UnknownConstraintType :: ConstraintTypes where "UnknownConstraintType = 0"
definition FixedConstraintType :: ConstraintTypes where "FixedConstraintType = 1"
definition SurfaceRollerConstraintType :: ConstraintTypes where "SurfaceRollerConstraintType = 2"
definition DirectionalConstraintType :: ConstraintTypes where "DirectionalConstraintType = 3"
definition PinConstraintType :: ConstraintTypes where "PinConstraintType = 4"
definition RemoteConstraintType :: ConstraintTypes where "RemoteConstraintType = 5"

subsection \<open>Strings\<close>

definition NUL :: char where
  "NUL = CHR 0x00"

text \<open>\<open>std::string::c_str()\<close>: a pointer to the characters followed by a terminator.\<close>

definition c_str :: "string \<Rightarrow> c_str" where
  "c_str s = Some (s @ [NUL])"

text \<open>
  Reading memory that the host did not hand over is undefined behaviour in C++; the model
  makes it a value instead of an unspecified result.
\<close>

datatype undefined_behaviour = ReadPastEnd | ReadIndeterminate

text \<open>
  \<open>res = p\<close> for a \<open>std::string res\<close> and a non-null \<open>char* p\<close>: the characters before the
  first terminator. An array without terminator is read past its end.
\<close>

definition string_assign :: "char list \<Rightarrow> undefined_behaviour + string" where
  "string_assign buf =
     (if NUL \<in> set buf then Inr (takeWhile (\<lambda>c. c \<noteq> NUL) buf) else Inl ReadPastEnd)"

subsection \<open>Vectors and arrays\<close>

text \<open>\<open>std::vector::size()\<close>, a \<open>size_t\<close>.\<close>

definition vector_size :: "'a list \<Rightarrow> size_t" where
  "vector_size v = of_nat (length v)"

text \<open>
  \<open>res.assign(p, p + s)\<close> for a non-null array \<open>p\<close> and the size \<open>s\<close> that the raw call was
  to store (\<open>None\<close> when it left the local \<open>size_t s;\<close> unassigned). Each \<open>T*\<close> in the range
  becomes a \<open>core::Ptr\<close>.
\<close>

definition assign_range :: "raw_ptr list \<Rightarrow> size_t option \<Rightarrow> undefined_behaviour + Ptr list" where
  "assign_range p s =
     (case s of
        None \<Rightarrow> Inl ReadIndeterminate
      | Some n \<Rightarrow> if unat n \<le> length p then Inr (map Ptr (take (unat n) p)) else Inl ReadPastEnd)"

text \<open>
  The marshalling loop of the vector-taking wrappers,
  \<^verbatim>\<open>for(size_t i = 0; i < value.size(); ++i) value_[i] = conv(value[i]);\<close>
  where \<open>conv\<close> is \<open>c_str()\<close> or \<open>get()\<close>; \<open>val\<close> is the source's \<open>value\<close> and \<open>val'\<close> its
  \<open>value_\<close>. Both accesses are in range: the index is below the size of the vector, and the
  array was allocated with that size.
\<close>

function marshal_loop :: "('a \<Rightarrow> 'b) \<Rightarrow> 'a list \<Rightarrow> size_t \<Rightarrow> 'b list \<Rightarrow> 'b list" where
  "marshal_loop conv val i val' =
     (if i < vector_size val
      then marshal_loop conv val (i + 1) (val'[unat i := conv (val ! unat i)])
      else val')"
  by pat_completeness auto
termination
proof (relation "measure (\<lambda>(conv, val, i, val'). unat (vector_size val) - unat i)")
  show "wf (measure (\<lambda>(conv, val, i, val'). unat (vector_size val) - unat i))"
    by simp
next
  fix conv :: "'a \<Rightarrow> 'b" and val :: "'a list" and i :: size_t and val' :: "'b list"
  assume lt: "i < vector_size val"
  then have "unat (i + 1) = Suc (unat i)"
    by unat_arith
  moreover from lt have "unat i < unat (vector_size val)"
    by (simp add: word_less_nat_alt)
  ultimately show "((conv, val, i + 1, val'[unat i := conv (val ! unat i)]), (conv, val, i, val'))
      \<in> measure (\<lambda>(conv, val, i, val'). unat (vector_size val) - unat i)"
    by simp
qed

declare marshal_loop.simps [simp del]

text \<open>
  \<open>new T[n]\<close>: a fresh array of \<open>n\<close> entries. C++ leaves the entries indeterminate; the
  model starts them as null, and \<open>marshal_loop\<close> overwrites every one of them before the
  array is handed to the host.
\<close>

definition new_array :: "size_t \<Rightarrow> 'a option list" where
  "new_array n = replicate (unat n) None"

section \<open>The host engine behind the raw interface\<close>

text \<open>
  The public method \<open>C::m\<close> of a class is the function \<open>C_m\<close> below, and its overload that
  takes the new value is \<open>C_m_set\<close>. A raw method is a function from the host state to its
  result and the host state it leaves: the wrappers cannot tell whether a method that C++
  declares \<open>const\<close> changes anything inside the host, and no theorem assumes that it does
  not unless it says so.

  One constructor for each raw method of the six classes, carrying the arguments as they
  arrive at the host. A getter and its setter are overloads of one name in C++; the setter
  is suffixed \<open>_set\<close> here. \<open>'card\<close> stands for \<open>enum AdditiveFEACard\<close>, which is declared in
  Cam/CamTypeDefs.h and is not among the sources.
\<close>

datatype 'card AdditiveFEADeckBuilder_call =
    Call_create_raw
  | Call_createSTLMap_raw
  | Call_createConvection_raw
  | Call_append_raw raw_ptr
  | Call_createGenericCard_raw c_str c_str
  | Call_createVoidCard_raw 'card
  | Call_createIntCard_raw 'card cpp_int
  | Call_createDoubleCard_raw 'card double
  | Call_createStringCard_raw 'card c_str
  | Call_createStringArrayCard_raw 'card "c_str array_ptr" size_t
  | Call_createBuildPlateZBoundsCard_raw double double
  | Call_createDiskCheckCard_raw cpp_int double
  | Call_createSTLMapCard_raw raw_ptr
  | Call_createConvectionCard_raw raw_ptr
  | Call_createBuildPlateXYExtensionCard_raw double double double double
  | Call_cards_raw

datatype ConfigurationParameterCell_call =
    Call_parentColumn_raw
  | Call_expression_raw
  | Call_expression_raw_set c_str
  | Call_value_raw
  | Call_value_raw_set double

datatype LoadCaseItems_call =
    Call_item_raw size_t
  | Call_itemByName_raw c_str
  | Call_count_raw

datatype SimAttribute_call =
    Call_name_raw
  | Call_name_raw_set c_str
  | Call_inputEntities_raw
  | Call_inputEntities_raw_set "raw_ptr array_ptr" size_t

datatype StructuralConstraint_call =
    Call_type_raw
  | Call_type_raw_set ConstraintTypes
  | Call_mask_raw
  | Call_mask_raw_set raw_ptr
  | Call_displacements_raw
  | Call_displacements_raw_set raw_ptr
  | Call_rotations_raw
  | Call_rotations_raw_set raw_ptr

datatype ConstraintMask_call =
    Call_isDisplacementConstrainedX_raw
  | Call_isDisplacementConstrainedX_raw_set bool
  | Call_isDisplacementConstrainedY_raw
  | Call_isDisplacementConstrainedY_raw_set bool
  | Call_isDisplacementConstrainedZ_raw
  | Call_isDisplacementConstrainedZ_raw_set bool
  | Call_isRotationConstrainedX_raw
  | Call_isRotationConstrainedX_raw_set bool
  | Call_isRotationConstrainedY_raw
  | Call_isRotationConstrainedY_raw_set bool
  | Call_isRotationConstrainedZ_raw
  | Call_isRotationConstrainedZ_raw_set bool

datatype 'card raw_call =
    AdditiveFEADeckBuilder_raw "'card AdditiveFEADeckBuilder_call"
  | ConfigurationParameterCell_raw ConfigurationParameterCell_call
  | LoadCaseItems_raw LoadCaseItems_call
  | SimAttribute_raw SimAttribute_call
  | StructuralConstraint_raw StructuralConstraint_call
  | ConstraintMask_raw ConstraintMask_call

text \<open>
  What a wrapper does outside itself: a call of a raw method, or a call of
  \<open>core::DeallocateArray\<close>.
\<close>

datatype 'card event = Raw "'card raw_call" | Deallocate

record ('h, 'card) world =
  host :: 'h
  trace :: "'card event list"

fun raw_calls :: "'card event list \<Rightarrow> 'card raw_call list" where
  "raw_calls [] = []"
| "raw_calls (Raw c # es) = c # raw_calls es"
| "raw_calls (Deallocate # es) = raw_calls es"

text \<open>
  A call of the raw method \<open>impl\<close> through the object's table: the host runs it on its
  state, and the call \<open>c\<close> is appended to the trace.
\<close>

definition call_raw ::
  "'card raw_call \<Rightarrow> ('h \<Rightarrow> 'r \<times> 'h)
     \<Rightarrow> ('h, 'card) world \<Rightarrow> 'r \<times> ('h, 'card) world" where
  "call_raw c impl w =
     (let (r, h') = impl (host w) in (r, w\<lparr>host := h', trace := trace w @ [Raw c]\<rparr>))"

text \<open>
  Modelled from the spec: \<open>core::DeallocateArray\<close> (Core/Memory.h is not among the
  sources) gives the array that a raw getter returned back to the host's allocator, part
  of the "marshalling of strings/arrays across a binary interface boundary". Arrays are
  values in this model, so the call leaves only its mark in the trace.
\<close>

definition DeallocateArray :: "('h, 'card) world \<Rightarrow> ('h, 'card) world" where
  "DeallocateArray w = w\<lparr>trace := trace w @ [Deallocate]\<rparr>"

section \<open>Sim/Simulation/ConstraintMask.h\<close>

text \<open>
  \<open>class ConstraintMask\<close> declares no data member: an object is its raw interface, twelve
  pure virtual methods implemented by the host.
\<close>

record 'h ConstraintMask =
  isDisplacementConstrainedX_raw :: "'h \<Rightarrow> bool \<times> 'h"
  isDisplacementConstrainedX_raw_set :: "bool \<Rightarrow> 'h \<Rightarrow> bool \<times> 'h"
  isDisplacementConstrainedY_raw :: "'h \<Rightarrow> bool \<times> 'h"
  isDisplacementConstrainedY_raw_set :: "bool \<Rightarrow> 'h \<Rightarrow> bool \<times> 'h"
  isDisplacementConstrainedZ_raw :: "'h \<Rightarrow> bool \<times> 'h"
  isDisplacementConstrainedZ_raw_set :: "bool \<Rightarrow> 'h \<Rightarrow> bool \<times> 'h"
  isRotationConstrainedX_raw :: "'h \<Rightarrow> bool \<times> 'h"
  isRotationConstrainedX_raw_set :: "bool \<Rightarrow> 'h \<Rightarrow> bool \<times> 'h"
  isRotationConstrainedY_raw :: "'h \<Rightarrow> bool \<times> 'h"
  isRotationConstrainedY_raw_set :: "bool \<Rightarrow> 'h \<Rightarrow> bool \<times> 'h"
  isRotationConstrainedZ_raw :: "'h \<Rightarrow> bool \<times> 'h"
  isRotationConstrainedZ_raw_set :: "bool \<Rightarrow> 'h \<Rightarrow> bool \<times> 'h"

definition ConstraintMask_isDisplacementConstrainedX ::
  "'h ConstraintMask \<Rightarrow> ('h, 'card) world
     \<Rightarrow> bool \<times> ('h, 'card) world" where
  "ConstraintMask_isDisplacementConstrainedX this w =
     (let (res, w') = call_raw (ConstraintMask_raw Call_isDisplacementConstrainedX_raw)
                        (isDisplacementConstrainedX_raw this) w
      in (res, w'))"

definition ConstraintMask_isDisplacementConstrainedX_set ::
  "'h ConstraintMask \<Rightarrow> bool \<Rightarrow> ('h, 'card) world
     \<Rightarrow> bool \<times> ('h, 'card) world" where
  "ConstraintMask_isDisplacementConstrainedX_set this val w =
     call_raw (ConstraintMask_raw (Call_isDisplacementConstrainedX_raw_set val))
       (isDisplacementConstrainedX_raw_set this val) w"

definition ConstraintMask_isDisplacementConstrainedY ::
  "'h ConstraintMask \<Rightarrow> ('h, 'card) world
     \<Rightarrow> bool \<times> ('h, 'card) world" where
  "ConstraintMask_isDisplacementConstrainedY this w =
     (let (res, w') = call_raw (ConstraintMask_raw Call_isDisplacementConstrainedY_raw)
                        (isDisplacementConstrainedY_raw this) w
      in (res, w'))"

definition ConstraintMask_isDisplacementConstrainedY_set ::
  "'h ConstraintMask \<Rightarrow> bool \<Rightarrow> ('h, 'card) world
     \<Rightarrow> bool \<times> ('h, 'card) world" where
  "ConstraintMask_isDisplacementConstrainedY_set this val w =
     call_raw (ConstraintMask_raw (Call_isDisplacementConstrainedY_raw_set val))
       (isDisplacementConstrainedY_raw_set this val) w"

definition ConstraintMask_isDisplacementConstrainedZ ::
  "'h ConstraintMask \<Rightarrow> ('h, 'card) world
     \<Rightarrow> bool \<times> ('h, 'card) world" where
  "ConstraintMask_isDisplacementConstrainedZ this w =
     (let (res, w') = call_raw (ConstraintMask_raw Call_isDisplacementConstrainedZ_raw)
                        (isDisplacementConstrainedZ_raw this) w
      in (res, w'))"

definition ConstraintMask_isDisplacementConstrainedZ_set ::
  "'h ConstraintMask \<Rightarrow> bool \<Rightarrow> ('h, 'card) world
     \<Rightarrow> bool \<times> ('h, 'card) world" where
  "ConstraintMask_isDisplacementConstrainedZ_set this val w =
     call_raw (ConstraintMask_raw (Call_isDisplacementConstrainedZ_raw_set val))
       (isDisplacementConstrainedZ_raw_set this val) w"

definition ConstraintMask_isRotationConstrainedX ::
  "'h ConstraintMask \<Rightarrow> ('h, 'card) world
     \<Rightarrow> bool \<times> ('h, 'card) world" where
  "ConstraintMask_isRotationConstrainedX this w =
     (let (res, w') = call_raw (ConstraintMask_raw Call_isRotationConstrainedX_raw)
                        (isRotationConstrainedX_raw this) w
      in (res, w'))"

definition ConstraintMask_isRotationConstrainedX_set ::
  "'h ConstraintMask \<Rightarrow> bool \<Rightarrow> ('h, 'card) world
     \<Rightarrow> bool \<times> ('h, 'card) world" where
  "ConstraintMask_isRotationConstrainedX_set this val w =
     call_raw (ConstraintMask_raw (Call_isRotationConstrainedX_raw_set val))
       (isRotationConstrainedX_raw_set this val) w"

definition ConstraintMask_isRotationConstrainedY ::
  "'h ConstraintMask \<Rightarrow> ('h, 'card) world
     \<Rightarrow> bool \<times> ('h, 'card) world" where
  "ConstraintMask_isRotationConstrainedY this w =
     (let (res, w') = call_raw (ConstraintMask_raw Call_isRotationConstrainedY_raw)
                        (isRotationConstrainedY_raw this) w
      in (res, w'))"

definition ConstraintMask_isRotationConstrainedY_set ::
  "'h ConstraintMask \<Rightarrow> bool \<Rightarrow> ('h, 'card) world
     \<Rightarrow> bool \<times> ('h, 'card) world" where
  "ConstraintMask_isRotationConstrainedY_set this val w =
     call_raw (ConstraintMask_raw (Call_isRotationConstrainedY_raw_set val))
       (isRotationConstrainedY_raw_set this val) w"

definition ConstraintMask_isRotationConstrainedZ ::
  "'h ConstraintMask \<Rightarrow> ('h, 'card) world
     \<Rightarrow> bool \<times> ('h, 'card) world" where
  "ConstraintMask_isRotationConstrainedZ this w =
     (let (res, w') = call_raw (ConstraintMask_raw Call_isRotationConstrainedZ_raw)
                        (isRotationConstrainedZ_raw this) w
      in (res, w'))"

definition ConstraintMask_isRotationConstrainedZ_set ::
  "'h ConstraintMask \<Rightarrow> bool \<Rightarrow> ('h, 'card) world
     \<Rightarrow> bool \<times> ('h, 'card) world" where
  "ConstraintMask_isRotationConstrainedZ_set this val w =
     call_raw (ConstraintMask_raw (Call_isRotationConstrainedZ_raw_set val))
       (isRotationConstrainedZ_raw_set this val) w"

section \<open>Sim/Simulation/SimAttribute.h\<close>

text \<open>
  The raw interface of \<open>class SimAttribute\<close>. The array getter reports the size through a
  reference parameter: the second component of its result is \<open>Some n\<close> when the host stored
  \<open>n\<close> there and \<open>None\<close> when it left the caller's variable as it was. The twelve
  \<open>placeholderSimAttribute\<close> slots have empty bodies and no caller.
\<close>

record 'h SimAttribute =
  name_raw :: "'h \<Rightarrow> c_str \<times> 'h"
  name_raw_set :: "c_str \<Rightarrow> 'h \<Rightarrow> bool \<times> 'h"
  inputEntities_raw :: "'h \<Rightarrow> (raw_ptr array_ptr \<times> size_t option) \<times> 'h"
  inputEntities_raw_set :: "raw_ptr array_ptr \<Rightarrow> size_t \<Rightarrow> 'h \<Rightarrow> bool \<times> 'h"

definition SimAttribute_name ::
  "('h, 'z) SimAttribute_scheme \<Rightarrow> ('h, 'card) world
     \<Rightarrow> (undefined_behaviour + string) \<times> ('h, 'card) world" where
  "SimAttribute_name this w =
     (let res = [];
          (p, w') = call_raw (SimAttribute_raw Call_name_raw)
                      (name_raw this) w
      in case p of
           None \<Rightarrow> (Inr res, w')
         | Some buf \<Rightarrow>
             (case string_assign buf of
                Inl ub \<Rightarrow> (Inl ub, w')
              | Inr res' \<Rightarrow> (Inr res', DeallocateArray w')))"

definition SimAttribute_name_set ::
  "('h, 'z) SimAttribute_scheme \<Rightarrow> string \<Rightarrow> ('h, 'card) world
     \<Rightarrow> bool \<times> ('h, 'card) world" where
  "SimAttribute_name_set this val w =
     call_raw (SimAttribute_raw (Call_name_raw_set (c_str val)))
       (name_raw_set this (c_str val)) w"

definition SimAttribute_inputEntities ::
  "('h, 'z) SimAttribute_scheme \<Rightarrow> ('h, 'card) world
     \<Rightarrow> (undefined_behaviour + Ptr list) \<times> ('h, 'card) world" where
  "SimAttribute_inputEntities this w =
     (let res = [];
          ((p, s), w') = call_raw (SimAttribute_raw Call_inputEntities_raw)
                           (inputEntities_raw this) w
      in case p of
           None \<Rightarrow> (Inr res, w')
         | Some arr \<Rightarrow>
             (case assign_range arr s of
                Inl ub \<Rightarrow> (Inl ub, w')
              | Inr res' \<Rightarrow> (Inr res', DeallocateArray w')))"

text \<open>
  The setter always allocates, also for an empty vector, and frees its local array with
  \<open>delete[]\<close> after the raw call.
\<close>

definition SimAttribute_inputEntities_set ::
  "('h, 'z) SimAttribute_scheme \<Rightarrow> Ptr list \<Rightarrow> ('h, 'card) world
     \<Rightarrow> bool \<times> ('h, 'card) world" where
  "SimAttribute_inputEntities_set this val w =
     (let val' = Some (marshal_loop get val 0 (new_array (vector_size val)));
          (res, w') = call_raw
                        (SimAttribute_raw (Call_inputEntities_raw_set val' (vector_size val)))
                        (inputEntities_raw_set this val' (vector_size val)) w
      in (res, w'))"

section \<open>Sim/Simulation/StructuralConstraint.h\<close>

text \<open>
  \<open>class StructuralConstraint : public SimAttribute\<close>: the raw interface extends that of
  the base class, and the wrappers of \<open>SimAttribute\<close> apply to it as they are.
\<close>

record 'h StructuralConstraint = "'h SimAttribute" +
  type_raw :: "'h \<Rightarrow> ConstraintTypes \<times> 'h"
  type_raw_set :: "ConstraintTypes \<Rightarrow> 'h \<Rightarrow> bool \<times> 'h"
  mask_raw :: "'h \<Rightarrow> raw_ptr \<times> 'h"
  mask_raw_set :: "raw_ptr \<Rightarrow> 'h \<Rightarrow> bool \<times> 'h"
  displacements_raw :: "'h \<Rightarrow> raw_ptr \<times> 'h"
  displacements_raw_set :: "raw_ptr \<Rightarrow> 'h \<Rightarrow> bool \<times> 'h"
  rotations_raw :: "'h \<Rightarrow> raw_ptr \<times> 'h"
  rotations_raw_set :: "raw_ptr \<Rightarrow> 'h \<Rightarrow> bool \<times> 'h"

definition StructuralConstraint_type ::
  "'h StructuralConstraint \<Rightarrow> ('h, 'card) world
     \<Rightarrow> ConstraintTypes \<times> ('h, 'card) world" where
  "StructuralConstraint_type this w =
     (let (res, w') = call_raw (StructuralConstraint_raw Call_type_raw)
                        (type_raw this) w
      in (res, w'))"

definition StructuralConstraint_type_set ::
  "'h StructuralConstraint \<Rightarrow> ConstraintTypes \<Rightarrow> ('h, 'card) world
     \<Rightarrow> bool \<times> ('h, 'card) world" where
  "StructuralConstraint_type_set this val w =
     call_raw (StructuralConstraint_raw (Call_type_raw_set val))
       (type_raw_set this val) w"

definition StructuralConstraint_mask ::
  "'h StructuralConstraint \<Rightarrow> ('h, 'card) world
     \<Rightarrow> Ptr \<times> ('h, 'card) world" where
  "StructuralConstraint_mask this w =
     (let (p, w') = call_raw (StructuralConstraint_raw Call_mask_raw)
                      (mask_raw this) w;
          res = Ptr p
      in (res, w'))"

definition StructuralConstraint_mask_set ::
  "'h StructuralConstraint \<Rightarrow> Ptr \<Rightarrow> ('h, 'card) world
     \<Rightarrow> bool \<times> ('h, 'card) world" where
  "StructuralConstraint_mask_set this val w =
     call_raw (StructuralConstraint_raw (Call_mask_raw_set (get val)))
       (mask_raw_set this (get val)) w"

definition StructuralConstraint_displacements ::
  "'h StructuralConstraint \<Rightarrow> ('h, 'card) world
     \<Rightarrow> Ptr \<times> ('h, 'card) world" where
  "StructuralConstraint_displacements this w =
     (let (p, w') = call_raw (StructuralConstraint_raw Call_displacements_raw)
                      (displacements_raw this) w;
          res = Ptr p
      in (res, w'))"

definition StructuralConstraint_displacements_set ::
  "'h StructuralConstraint \<Rightarrow> Ptr \<Rightarrow> ('h, 'card) world
     \<Rightarrow> bool \<times> ('h, 'card) world" where
  "StructuralConstraint_displacements_set this val w =
     call_raw (StructuralConstraint_raw (Call_displacements_raw_set (get val)))
       (displacements_raw_set this (get val)) w"

definition StructuralConstraint_rotations ::
  "'h StructuralConstraint \<Rightarrow> ('h, 'card) world
     \<Rightarrow> Ptr \<times> ('h, 'card) world" where
  "StructuralConstraint_rotations this w =
     (let (p, w') = call_raw (StructuralConstraint_raw Call_rotations_raw)
                      (rotations_raw this) w;
          res = Ptr p
      in (res, w'))"

definition StructuralConstraint_rotations_set ::
  "'h StructuralConstraint \<Rightarrow> Ptr \<Rightarrow> ('h, 'card) world
     \<Rightarrow> bool \<times> ('h, 'card) world" where
  "StructuralConstraint_rotations_set this val w =
     call_raw (StructuralConstraint_raw (Call_rotations_raw_set (get val)))
       (rotations_raw_set this (get val)) w"

section \<open>Sim/Simulation/LoadCaseItems.h\<close>

record 'h LoadCaseItems =
  item_raw :: "size_t \<Rightarrow> 'h \<Rightarrow> raw_ptr \<times> 'h"
  itemByName_raw :: "c_str \<Rightarrow> 'h \<Rightarrow> raw_ptr \<times> 'h"
  count_raw :: "'h \<Rightarrow> size_t \<times> 'h"

definition LoadCaseItems_item ::
  "'h LoadCaseItems \<Rightarrow> size_t \<Rightarrow> ('h, 'card) world
     \<Rightarrow> Ptr \<times> ('h, 'card) world" where
  "LoadCaseItems_item this index w =
     (let (p, w') = call_raw (LoadCaseItems_raw (Call_item_raw index))
                      (item_raw this index) w;
          res = Ptr p
      in (res, w'))"

definition LoadCaseItems_itemByName ::
  "'h LoadCaseItems \<Rightarrow> string \<Rightarrow> ('h, 'card) world
     \<Rightarrow> Ptr \<times> ('h, 'card) world" where
  "LoadCaseItems_itemByName this name w =
     (let (p, w') = call_raw (LoadCaseItems_raw (Call_itemByName_raw (c_str name)))
                      (itemByName_raw this (c_str name)) w;
          res = Ptr p
      in (res, w'))"

definition LoadCaseItems_count ::
  "'h LoadCaseItems \<Rightarrow> ('h, 'card) world
     \<Rightarrow> size_t \<times> ('h, 'card) world" where
  "LoadCaseItems_count this w =
     (let (res, w') = call_raw (LoadCaseItems_raw Call_count_raw)
                        (count_raw this) w
      in (res, w'))"

text \<open>
  \<^verbatim>\<open>for (size_t i = 0; i < count(); ++i) { *result = item(i); ++result; }\<close>
  The output iterator is the sequence of elements written through it so far; a write
  followed by the increment appends one element. \<open>count()\<close> is asked again before every
  round. The index cannot wrap: it is below a \<open>size_t\<close> whenever it is incremented.
\<close>

function copyTo_loop ::
  "'h LoadCaseItems \<Rightarrow> size_t \<Rightarrow> Ptr list
     \<Rightarrow> ('h, 'card) world \<Rightarrow> Ptr list \<times> ('h, 'card) world" where
  "copyTo_loop this i result w =
     (let (n, w1) = LoadCaseItems_count this w
      in if i < n
         then (let (x, w2) = LoadCaseItems_item this i w1
               in copyTo_loop this (i + 1) (result @ [x]) w2)
         else (result, w1))"
  by pat_completeness auto
termination
proof (relation "measure (\<lambda>(this, i, result, w). 2 ^ 64 - unat i)")
  show "wf (measure (\<lambda>(this, i, result, w). 2 ^ 64 - unat i))"
    by simp
next
  fix this :: "'h LoadCaseItems" and i n :: size_t and result :: "Ptr list"
    and w w1 w2 :: "('h, 'card) world" and x :: Ptr
  assume "i < n"
  then have "unat (i + 1) = Suc (unat i)"
    by unat_arith
  moreover have "unat i < 2 ^ 64"
    using unsigned_less [of i] by simp
  ultimately show "((this, i + 1, result @ [x], w2), (this, i, result, w))
      \<in> measure (\<lambda>(this, i, result, w). 2 ^ 64 - unat i)"
    by simp
qed

declare copyTo_loop.simps [simp del]

definition LoadCaseItems_copyTo ::
  "'h LoadCaseItems \<Rightarrow> Ptr list \<Rightarrow> ('h, 'card) world
     \<Rightarrow> Ptr list \<times> ('h, 'card) world" where
  "LoadCaseItems_copyTo this result w = copyTo_loop this 0 result w"

section \<open>Original/Fusion/Configurations/ConfigurationParameterCell.h\<close>

text \<open>
  The raw methods that \<open>class ConfigurationParameterCell\<close> itself declares. Its base class
  \<open>ConfigurationCell\<close> is declared in a header that is not among the sources.
\<close>

record 'h ConfigurationParameterCell =
  parentColumn_raw :: "'h \<Rightarrow> raw_ptr \<times> 'h"
  expression_raw :: "'h \<Rightarrow> c_str \<times> 'h"
  expression_raw_set :: "c_str \<Rightarrow> 'h \<Rightarrow> bool \<times> 'h"
  value_raw :: "'h \<Rightarrow> double \<times> 'h"
  value_raw_set :: "double \<Rightarrow> 'h \<Rightarrow> bool \<times> 'h"

definition ConfigurationParameterCell_parentColumn ::
  "'h ConfigurationParameterCell \<Rightarrow> ('h, 'card) world
     \<Rightarrow> Ptr \<times> ('h, 'card) world" where
  "ConfigurationParameterCell_parentColumn this w =
     (let (p, w') = call_raw (ConfigurationParameterCell_raw Call_parentColumn_raw)
                      (parentColumn_raw this) w;
          res = Ptr p
      in (res, w'))"

definition ConfigurationParameterCell_expression ::
  "'h ConfigurationParameterCell \<Rightarrow> ('h, 'card) world
     \<Rightarrow> (undefined_behaviour + string) \<times> ('h, 'card) world" where
  "ConfigurationParameterCell_expression this w =
     (let res = [];
          (p, w') = call_raw (ConfigurationParameterCell_raw Call_expression_raw)
                      (expression_raw this) w
      in case p of
           None \<Rightarrow> (Inr res, w')
         | Some buf \<Rightarrow>
             (case string_assign buf of
                Inl ub \<Rightarrow> (Inl ub, w')
              | Inr res' \<Rightarrow> (Inr res', DeallocateArray w')))"

definition ConfigurationParameterCell_expression_set ::
  "'h ConfigurationParameterCell \<Rightarrow> string \<Rightarrow> ('h, 'card) world
     \<Rightarrow> bool \<times> ('h, 'card) world" where
  "ConfigurationParameterCell_expression_set this val w =
     call_raw (ConfigurationParameterCell_raw (Call_expression_raw_set (c_str val)))
       (expression_raw_set this (c_str val)) w"

definition ConfigurationParameterCell_value ::
  "'h ConfigurationParameterCell \<Rightarrow> ('h, 'card) world
     \<Rightarrow> double \<times> ('h, 'card) world" where
  "ConfigurationParameterCell_value this w =
     (let (res, w') = call_raw (ConfigurationParameterCell_raw Call_value_raw)
                        (value_raw this) w
      in (res, w'))"

definition ConfigurationParameterCell_value_set ::
  "'h ConfigurationParameterCell \<Rightarrow> double \<Rightarrow> ('h, 'card) world
     \<Rightarrow> bool \<times> ('h, 'card) world" where
  "ConfigurationParameterCell_value_set this val w =
     call_raw (ConfigurationParameterCell_raw (Call_value_raw_set val))
       (value_raw_set this val) w"

section \<open>Cam/AdditiveFEA/AdditiveFEADeckBuilder.h\<close>

text \<open>
  \<open>create_raw\<close> is a static member function, the other fifteen are pure virtual. All of
  them are implemented by the host, so the model keeps them in one table; the static
  \<open>create()\<close> takes the table of the class where a method takes that of its object.
\<close>

record ('h, 'card) AdditiveFEADeckBuilder =
  create_raw :: "'h \<Rightarrow> raw_ptr \<times> 'h"
  createSTLMap_raw :: "'h \<Rightarrow> raw_ptr \<times> 'h"
  createConvection_raw :: "'h \<Rightarrow> raw_ptr \<times> 'h"
  append_raw :: "raw_ptr \<Rightarrow> 'h \<Rightarrow> unit \<times> 'h"
  createGenericCard_raw :: "c_str \<Rightarrow> c_str \<Rightarrow> 'h \<Rightarrow> raw_ptr \<times> 'h"
  createVoidCard_raw :: "'card \<Rightarrow> 'h \<Rightarrow> raw_ptr \<times> 'h"
  createIntCard_raw :: "'card \<Rightarrow> cpp_int \<Rightarrow> 'h \<Rightarrow> raw_ptr \<times> 'h"
  createDoubleCard_raw :: "'card \<Rightarrow> double \<Rightarrow> 'h \<Rightarrow> raw_ptr \<times> 'h"
  createStringCard_raw :: "'card \<Rightarrow> c_str \<Rightarrow> 'h \<Rightarrow> raw_ptr \<times> 'h"
  createStringArrayCard_raw :: "'card \<Rightarrow> c_str array_ptr \<Rightarrow> size_t \<Rightarrow> 'h \<Rightarrow> raw_ptr \<times> 'h"
  createBuildPlateZBoundsCard_raw :: "double \<Rightarrow> double \<Rightarrow> 'h \<Rightarrow> raw_ptr \<times> 'h"
  createDiskCheckCard_raw :: "cpp_int \<Rightarrow> double \<Rightarrow> 'h \<Rightarrow> raw_ptr \<times> 'h"
  createSTLMapCard_raw :: "raw_ptr \<Rightarrow> 'h \<Rightarrow> raw_ptr \<times> 'h"
  createConvectionCard_raw :: "raw_ptr \<Rightarrow> 'h \<Rightarrow> raw_ptr \<times> 'h"
  createBuildPlateXYExtensionCard_raw ::
    "double \<Rightarrow> double \<Rightarrow> double \<Rightarrow> double \<Rightarrow> 'h \<Rightarrow> raw_ptr \<times> 'h"
  cards_raw :: "'h \<Rightarrow> (raw_ptr array_ptr \<times> size_t option) \<times> 'h"

definition AdditiveFEADeckBuilder_create ::
  "('h, 'card) AdditiveFEADeckBuilder \<Rightarrow> ('h, 'card) world
     \<Rightarrow> Ptr \<times> ('h, 'card) world" where
  "AdditiveFEADeckBuilder_create cls w =
     (let (p, w') = call_raw (AdditiveFEADeckBuilder_raw Call_create_raw)
                      (create_raw cls) w;
          res = Ptr p
      in (res, w'))"

definition AdditiveFEADeckBuilder_createSTLMap ::
  "('h, 'card) AdditiveFEADeckBuilder \<Rightarrow> ('h, 'card) world
     \<Rightarrow> Ptr \<times> ('h, 'card) world" where
  "AdditiveFEADeckBuilder_createSTLMap this w =
     (let (p, w') = call_raw (AdditiveFEADeckBuilder_raw Call_createSTLMap_raw)
                      (createSTLMap_raw this) w;
          res = Ptr p
      in (res, w'))"

definition AdditiveFEADeckBuilder_createConvection ::
  "('h, 'card) AdditiveFEADeckBuilder \<Rightarrow> ('h, 'card) world
     \<Rightarrow> Ptr \<times> ('h, 'card) world" where
  "AdditiveFEADeckBuilder_createConvection this w =
     (let (p, w') = call_raw (AdditiveFEADeckBuilder_raw Call_createConvection_raw)
                      (createConvection_raw this) w;
          res = Ptr p
      in (res, w'))"

definition AdditiveFEADeckBuilder_append ::
  "('h, 'card) AdditiveFEADeckBuilder \<Rightarrow> Ptr \<Rightarrow> ('h, 'card) world
     \<Rightarrow> unit \<times> ('h, 'card) world" where
  "AdditiveFEADeckBuilder_append this card' w =
     call_raw (AdditiveFEADeckBuilder_raw (Call_append_raw (get card')))
       (append_raw this (get card')) w"

definition AdditiveFEADeckBuilder_createGenericCard ::
  "('h, 'card) AdditiveFEADeckBuilder \<Rightarrow> string \<Rightarrow> string
     \<Rightarrow> ('h, 'card) world \<Rightarrow> Ptr \<times> ('h, 'card) world" where
  "AdditiveFEADeckBuilder_createGenericCard this name val w =
     (let (p, w') = call_raw (AdditiveFEADeckBuilder_raw (Call_createGenericCard_raw (c_str name) (c_str val)))
                      (createGenericCard_raw this (c_str name) (c_str val)) w;
          res = Ptr p
      in (res, w'))"

definition AdditiveFEADeckBuilder_createVoidCard ::
  "('h, 'card) AdditiveFEADeckBuilder \<Rightarrow> 'card \<Rightarrow> ('h, 'card) world
     \<Rightarrow> Ptr \<times> ('h, 'card) world" where
  "AdditiveFEADeckBuilder_createVoidCard this card' w =
     (let (p, w') = call_raw (AdditiveFEADeckBuilder_raw (Call_createVoidCard_raw card'))
                      (createVoidCard_raw this card') w;
          res = Ptr p
      in (res, w'))"

definition AdditiveFEADeckBuilder_createIntCard ::
  "('h, 'card) AdditiveFEADeckBuilder \<Rightarrow> 'card \<Rightarrow> cpp_int
     \<Rightarrow> ('h, 'card) world \<Rightarrow> Ptr \<times> ('h, 'card) world" where
  "AdditiveFEADeckBuilder_createIntCard this card' val w =
     (let (p, w') = call_raw (AdditiveFEADeckBuilder_raw (Call_createIntCard_raw card' val))
                      (createIntCard_raw this card' val) w;
          res = Ptr p
      in (res, w'))"

definition AdditiveFEADeckBuilder_createDoubleCard ::
  "('h, 'card) AdditiveFEADeckBuilder \<Rightarrow> 'card \<Rightarrow> double
     \<Rightarrow> ('h, 'card) world \<Rightarrow> Ptr \<times> ('h, 'card) world" where
  "AdditiveFEADeckBuilder_createDoubleCard this card' val w =
     (let (p, w') = call_raw (AdditiveFEADeckBuilder_raw (Call_createDoubleCard_raw card' val))
                      (createDoubleCard_raw this card' val) w;
          res = Ptr p
      in (res, w'))"

definition AdditiveFEADeckBuilder_createStringCard ::
  "('h, 'card) AdditiveFEADeckBuilder \<Rightarrow> 'card \<Rightarrow> string
     \<Rightarrow> ('h, 'card) world \<Rightarrow> Ptr \<times> ('h, 'card) world" where
  "AdditiveFEADeckBuilder_createStringCard this card' val w =
     (let (p, w') = call_raw (AdditiveFEADeckBuilder_raw (Call_createStringCard_raw card' (c_str val)))
                      (createStringCard_raw this card' (c_str val)) w;
          res = Ptr p
      in (res, w'))"

text \<open>
  An empty vector is handed over as a null array; otherwise the array is allocated, filled
  by the loop (which has no round to run for an empty vector) and freed with \<open>delete[]\<close>
  after the raw call.
\<close>

definition AdditiveFEADeckBuilder_createStringArrayCard ::
  "('h, 'card) AdditiveFEADeckBuilder \<Rightarrow> 'card \<Rightarrow> string list
     \<Rightarrow> ('h, 'card) world \<Rightarrow> Ptr \<times> ('h, 'card) world" where
  "AdditiveFEADeckBuilder_createStringArrayCard this card' val w =
     (let val' = (if val = [] then None
                  else Some (marshal_loop c_str val 0 (new_array (vector_size val))));
          (p, w') = call_raw
                      (AdditiveFEADeckBuilder_raw
                         (Call_createStringArrayCard_raw card' val' (vector_size val)))
                      (createStringArrayCard_raw this card' val' (vector_size val)) w;
          res = Ptr p
      in (res, w'))"

definition AdditiveFEADeckBuilder_createBuildPlateZBoundsCard ::
  "('h, 'card) AdditiveFEADeckBuilder \<Rightarrow> double \<Rightarrow> double
     \<Rightarrow> ('h, 'card) world \<Rightarrow> Ptr \<times> ('h, 'card) world" where
  "AdditiveFEADeckBuilder_createBuildPlateZBoundsCard this zTop zBottom w =
     (let (p, w') = call_raw (AdditiveFEADeckBuilder_raw (Call_createBuildPlateZBoundsCard_raw zTop zBottom))
                      (createBuildPlateZBoundsCard_raw this zTop zBottom) w;
          res = Ptr p
      in (res, w'))"

definition AdditiveFEADeckBuilder_createDiskCheckCard ::
  "('h, 'card) AdditiveFEADeckBuilder \<Rightarrow> cpp_int \<Rightarrow> double
     \<Rightarrow> ('h, 'card) world \<Rightarrow> Ptr \<times> ('h, 'card) world" where
  "AdditiveFEADeckBuilder_createDiskCheckCard this i1 r1 w =
     (let (p, w') = call_raw (AdditiveFEADeckBuilder_raw (Call_createDiskCheckCard_raw i1 r1))
                      (createDiskCheckCard_raw this i1 r1) w;
          res = Ptr p
      in (res, w'))"

definition AdditiveFEADeckBuilder_createSTLMapCard ::
  "('h, 'card) AdditiveFEADeckBuilder \<Rightarrow> Ptr \<Rightarrow> ('h, 'card) world
     \<Rightarrow> Ptr \<times> ('h, 'card) world" where
  "AdditiveFEADeckBuilder_createSTLMapCard this m w =
     (let (p, w') = call_raw (AdditiveFEADeckBuilder_raw (Call_createSTLMapCard_raw (get m)))
                      (createSTLMapCard_raw this (get m)) w;
          res = Ptr p
      in (res, w'))"

definition AdditiveFEADeckBuilder_createConvectionCard ::
  "('h, 'card) AdditiveFEADeckBuilder \<Rightarrow> Ptr \<Rightarrow> ('h, 'card) world
     \<Rightarrow> Ptr \<times> ('h, 'card) world" where
  "AdditiveFEADeckBuilder_createConvectionCard this convection w =
     (let (p, w') = call_raw (AdditiveFEADeckBuilder_raw (Call_createConvectionCard_raw (get convection)))
                      (createConvectionCard_raw this (get convection)) w;
          res = Ptr p
      in (res, w'))"

definition AdditiveFEADeckBuilder_createBuildPlateXYExtensionCard ::
  "('h, 'card) AdditiveFEADeckBuilder \<Rightarrow> double \<Rightarrow> double
     \<Rightarrow> double \<Rightarrow> double \<Rightarrow> ('h, 'card) world
     \<Rightarrow> Ptr \<times> ('h, 'card) world" where
  "AdditiveFEADeckBuilder_createBuildPlateXYExtensionCard this left right front back w =
     (let (p, w') = call_raw (AdditiveFEADeckBuilder_raw (Call_createBuildPlateXYExtensionCard_raw left right front back))
                      (createBuildPlateXYExtensionCard_raw this left right front back) w;
          res = Ptr p
      in (res, w'))"

definition AdditiveFEADeckBuilder_cards ::
  "('h, 'card) AdditiveFEADeckBuilder \<Rightarrow> ('h, 'card) world
     \<Rightarrow> (undefined_behaviour + Ptr list) \<times> ('h, 'card) world" where
  "AdditiveFEADeckBuilder_cards this w =
     (let res = [];
          ((p, s), w') = call_raw (AdditiveFEADeckBuilder_raw Call_cards_raw)
                           (cards_raw this) w
      in case p of
           None \<Rightarrow> (Inr res, w')
         | Some arr \<Rightarrow>
             (case assign_range arr s of
                Inl ub \<Rightarrow> (Inl ub, w')
              | Inr res' \<Rightarrow> (Inr res', DeallocateArray w')))"

section \<open>What the specification says about a wrapper\<close>

text \<open>
  These definitions follow the words of the specification, not the code; the theorems
  below compare the wrappers with them.

  "Client calls method, method marshals arguments, forwards to virtual raw method": the
  outcome \<open>out\<close> of a public method started in \<open>w\<close> carries the converted result of the
  raw outcome \<open>raw_out\<close>, and the raw calls made are the earlier ones followed by the one
  call \<open>c\<close>.
\<close>

definition one_raw_call ::
  "('h, 'card) world \<Rightarrow> 'a \<times> ('h, 'card) world
     \<Rightarrow> 'card raw_call \<Rightarrow> 'r \<times> 'h \<Rightarrow> ('r
     \<Rightarrow> 'a) \<Rightarrow> bool" where
  "one_raw_call w out c raw_out conv \<longleftrightarrow>
     fst out = conv (fst raw_out) \<and> raw_calls (trace (snd out)) = raw_calls (trace w) @ [c]"

text \<open>
  "Reaches its raw method exactly once with the argument passed through": the outcome
  \<open>out\<close> of a public method started in \<open>w\<close> is the outcome \<open>raw_out\<close> of the raw method,
  applied in the host state of \<open>w\<close> to the arguments as the claim has them arrive. The
  result is the converted raw result, the host is left in the state in which that one
  application left it, and the raw calls made are the earlier ones followed by the one
  call \<open>c\<close>.
\<close>

definition reaches_raw_method ::
  "('h, 'card) world \<Rightarrow> 'a \<times> ('h, 'card) world \<Rightarrow> 'card raw_call \<Rightarrow> 'r \<times> 'h \<Rightarrow> ('r \<Rightarrow> 'a)
     \<Rightarrow> bool" where
  "reaches_raw_method w out c raw_out conv \<longleftrightarrow>
     fst out = conv (fst raw_out) \<and> host (snd out) = snd raw_out
     \<and> raw_calls (trace (snd out)) = raw_calls (trace w) @ [c]"

text \<open>The owning string made from a \<open>char*\<close> result: empty for a null pointer.\<close>

definition string_result :: "c_str \<Rightarrow> undefined_behaviour + string" where
  "string_result p = (case p of None \<Rightarrow> Inr [] | Some buf \<Rightarrow> string_assign buf)"

text \<open>The owning vector made from an array result and its reported size.\<close>

definition vector_result :: "raw_ptr array_ptr \<times> size_t option \<Rightarrow> undefined_behaviour + Ptr list" where
  "vector_result r = (case fst r of None \<Rightarrow> Inr [] | Some arr \<Rightarrow> assign_range arr (snd r))"

text \<open>The array of C strings that stands for a vector of strings: null when it is empty.\<close>

definition string_array :: "string list \<Rightarrow> c_str array_ptr" where
  "string_array v = (if v = [] then None else Some (map c_str v))"

section \<open>Example hosts\<close>

definition start :: "'h \<Rightarrow> ('h, 'card) world" where
  "start h = \<lparr>host = h, trace = []\<rparr>"

text \<open>A collection of \<open>n\<close> items in a host whose state no call changes.\<close>

definition items_of :: "nat \<Rightarrow> nat LoadCaseItems" where
  "items_of n =
     \<lparr>item_raw = (\<lambda>i h. (if unat i < n then Some (100 + unat i) else None, h)),
      itemByName_raw = (\<lambda>name h. (None, h)),
      count_raw = (\<lambda>h. (of_nat n, h))\<rparr>"

text \<open>
  A collection of two items in a host that counts the calls it serves in the first
  component of its state and keeps the second one as it is.
\<close>

definition counting_items :: "(nat \<times> nat) LoadCaseItems" where
  "counting_items =
     \<lparr>item_raw = (\<lambda>i h. (Some (unat i), (Suc (fst h), snd h))),
      itemByName_raw = (\<lambda>name h. (None, (Suc (fst h), snd h))),
      count_raw = (\<lambda>h. (2, (Suc (fst h), snd h)))\<rparr>"

text \<open>An attribute whose raw getters return the given values.\<close>

definition attribute_returning ::
  "c_str \<Rightarrow> raw_ptr array_ptr \<times> size_t option
     \<Rightarrow> nat SimAttribute" where
  "attribute_returning nm ents =
     \<lparr>name_raw = (\<lambda>h. (nm, h)),
      name_raw_set = (\<lambda>v h. (v \<noteq> None, Suc h)),
      inputEntities_raw = (\<lambda>h. (ents, h)),
      inputEntities_raw_set = (\<lambda>v n h. (v \<noteq> None, Suc h))\<rparr>"

text \<open>A configuration cell whose expression getter returns the given value.\<close>

definition cell_returning :: "c_str \<Rightarrow> nat ConfigurationParameterCell" where
  "cell_returning e =
     \<lparr>parentColumn_raw = (\<lambda>h. (Some 1, h)),
      expression_raw = (\<lambda>h. (e, h)),
      expression_raw_set = (\<lambda>v h. (v \<noteq> None, Suc h)),
      value_raw = (\<lambda>h. (0, h)),
      value_raw_set = (\<lambda>v h. (True, Suc h))\<rparr>"

text \<open>
  A deck builder whose factories hand out the next free address, fail with a null pointer
  on a null argument, and whose deck getter returns the given value.
\<close>

definition builder_returning ::
  "raw_ptr array_ptr \<times> size_t option \<Rightarrow> (nat, nat) AdditiveFEADeckBuilder" where
  "builder_returning deck =
     \<lparr>create_raw = (\<lambda>h. (Some h, Suc h)),
      createSTLMap_raw = (\<lambda>h. (Some h, Suc h)),
      createConvection_raw = (\<lambda>h. (Some h, Suc h)),
      append_raw = (\<lambda>c h. ((), Suc h)),
      createGenericCard_raw = (\<lambda>n v h. (Some h, Suc h)),
      createVoidCard_raw = (\<lambda>c h. (Some h, Suc h)),
      createIntCard_raw = (\<lambda>c v h. (Some h, Suc h)),
      createDoubleCard_raw = (\<lambda>c v h. (Some h, Suc h)),
      createStringCard_raw = (\<lambda>c v h. (Some h, Suc h)),
      createStringArrayCard_raw = (\<lambda>c v n h. (if v = None then None else Some h, Suc h)),
      createBuildPlateZBoundsCard_raw = (\<lambda>t b h. (Some h, Suc h)),
      createDiskCheckCard_raw = (\<lambda>i r h. (Some h, Suc h)),
      createSTLMapCard_raw = (\<lambda>m h. (if m = None then None else Some h, Suc h)),
      createConvectionCard_raw = (\<lambda>c h. (if c = None then None else Some h, Suc h)),
      createBuildPlateXYExtensionCard_raw = (\<lambda>l r f b h. (Some h, Suc h)),
      cards_raw = (\<lambda>h. (deck, h))\<rparr>"

text \<open>
  A mask all of whose flags have the given value; setting a flag succeeds when it changes
  the flag.
\<close>

definition mask_returning :: "bool \<Rightarrow> nat ConstraintMask" where
  "mask_returning b =
     \<lparr>isDisplacementConstrainedX_raw = (\<lambda>h. (b, h)),
      isDisplacementConstrainedX_raw_set = (\<lambda>v h. (v \<noteq> b, Suc h)),
      isDisplacementConstrainedY_raw = (\<lambda>h. (b, h)),
      isDisplacementConstrainedY_raw_set = (\<lambda>v h. (v \<noteq> b, Suc h)),
      isDisplacementConstrainedZ_raw = (\<lambda>h. (b, h)),
      isDisplacementConstrainedZ_raw_set = (\<lambda>v h. (v \<noteq> b, Suc h)),
      isRotationConstrainedX_raw = (\<lambda>h. (b, h)),
      isRotationConstrainedX_raw_set = (\<lambda>v h. (v \<noteq> b, Suc h)),
      isRotationConstrainedY_raw = (\<lambda>h. (b, h)),
      isRotationConstrainedY_raw_set = (\<lambda>v h. (v \<noteq> b, Suc h)),
      isRotationConstrainedZ_raw = (\<lambda>h. (b, h)),
      isRotationConstrainedZ_raw_set = (\<lambda>v h. (v \<noteq> b, Suc h))\<rparr>"

text \<open>A constraint that has the given mask and accepts any pointer but the null pointer.\<close>

definition constraint_returning :: "raw_ptr \<Rightarrow> nat StructuralConstraint" where
  "constraint_returning m =
     \<lparr>name_raw = (\<lambda>h. (None, h)),
      name_raw_set = (\<lambda>v h. (v \<noteq> None, Suc h)),
      inputEntities_raw = (\<lambda>h. ((None, None), h)),
      inputEntities_raw_set = (\<lambda>v n h. (v \<noteq> None, Suc h)),
      type_raw = (\<lambda>h. (FixedConstraintType, h)),
      type_raw_set = (\<lambda>v h. (v \<le> RemoteConstraintType, Suc h)),
      mask_raw = (\<lambda>h. (m, h)),
      mask_raw_set = (\<lambda>v h. (v \<noteq> None, Suc h)),
      displacements_raw = (\<lambda>h. (None, h)),
      displacements_raw_set = (\<lambda>v h. (v \<noteq> None, Suc h)),
      rotations_raw = (\<lambda>h. (None, h)),
      rotations_raw_set = (\<lambda>v h. (v \<noteq> None, Suc h))\<rparr>"

section \<open>Facts about the marshalling helpers\<close>

lemmas wrapper_defs =
  AdditiveFEADeckBuilder_append_def
  AdditiveFEADeckBuilder_createBuildPlateXYExtensionCard_def
  AdditiveFEADeckBuilder_createBuildPlateZBoundsCard_def
  AdditiveFEADeckBuilder_createConvectionCard_def
  AdditiveFEADeckBuilder_createConvection_def
  AdditiveFEADeckBuilder_createDiskCheckCard_def
  AdditiveFEADeckBuilder_createDoubleCard_def AdditiveFEADeckBuilder_createGenericCard_def
  AdditiveFEADeckBuilder_createIntCard_def AdditiveFEADeckBuilder_createSTLMapCard_def
  AdditiveFEADeckBuilder_createSTLMap_def AdditiveFEADeckBuilder_createStringArrayCard_def
  AdditiveFEADeckBuilder_createStringCard_def AdditiveFEADeckBuilder_createVoidCard_def
  AdditiveFEADeckBuilder_create_def ConfigurationParameterCell_expression_set_def
  ConfigurationParameterCell_parentColumn_def ConfigurationParameterCell_value_def
  ConfigurationParameterCell_value_set_def ConstraintMask_isDisplacementConstrainedX_def
  ConstraintMask_isDisplacementConstrainedX_set_def
  ConstraintMask_isDisplacementConstrainedY_def
  ConstraintMask_isDisplacementConstrainedY_set_def
  ConstraintMask_isDisplacementConstrainedZ_def
  ConstraintMask_isDisplacementConstrainedZ_set_def
  ConstraintMask_isRotationConstrainedX_def ConstraintMask_isRotationConstrainedX_set_def
  ConstraintMask_isRotationConstrainedY_def ConstraintMask_isRotationConstrainedY_set_def
  ConstraintMask_isRotationConstrainedZ_def ConstraintMask_isRotationConstrainedZ_set_def
  LoadCaseItems_count_def LoadCaseItems_itemByName_def LoadCaseItems_item_def
  SimAttribute_inputEntities_set_def SimAttribute_name_set_def
  StructuralConstraint_displacements_def StructuralConstraint_displacements_set_def
  StructuralConstraint_mask_def StructuralConstraint_mask_set_def
  StructuralConstraint_rotations_def StructuralConstraint_rotations_set_def
  StructuralConstraint_type_def StructuralConstraint_type_set_def

lemma raw_calls_append: "raw_calls (es @ fs) = raw_calls es @ raw_calls fs"
  by (induction es rule: raw_calls.induct) simp_all

lemma vector_size_Nil: "vector_size [] = 0"
  by (simp add: vector_size_def)

lemma unat_of_nat_size: "n < 2 ^ 64 \<Longrightarrow> unat (of_nat n :: size_t) = n"
  by (simp add: unat_of_nat)

text \<open>
  The marshalling loop, started at index \<open>j\<close>, keeps the entries below \<open>j\<close> and overwrites
  the others with the converted elements of the vector. A \<open>std::vector\<close> has fewer than
  \<open>2 ^ 64\<close> elements, which a list need not.
\<close>

lemma unat_vector_size: "length v < 2 ^ 64 \<Longrightarrow> unat (vector_size v) = length v"
  by (simp add: vector_size_def unat_of_nat_size)

lemma marshal_loop_from:
  assumes "length val < 2 ^ 64" "length arr = length val" "j \<le> length val"
  shows "marshal_loop conv val (of_nat j) arr = take j arr @ map conv (drop j val)"
  using assms(2,3)
proof (induction "length val - j" arbitrary: j arr)
  case 0
  then have "j = length val" by simp
  then show ?case
    using "0.prems" by (subst marshal_loop.simps) (simp add: vector_size_def)
next
  case (Suc k)
  have j: "j < length val" using Suc.hyps(2) by simp
  have uj: "unat (of_nat j :: size_t) = j"
    using assms(1) j by (simp add: unat_of_nat_size)
  have lt: "(of_nat j :: size_t) < vector_size val"
    using assms(1) j by (simp add: vector_size_def word_less_nat_alt unat_of_nat_size)
  have "marshal_loop conv val (of_nat j) arr
        = marshal_loop conv val (of_nat (Suc j)) (arr[j := conv (val ! j)])"
    by (subst marshal_loop.simps) (simp add: lt uj add.commute)
  also have "\<dots> = take (Suc j) (arr[j := conv (val ! j)]) @ map conv (drop (Suc j) val)"
    using Suc.hyps(2) Suc.prems j by (intro Suc.hyps(1)) simp_all
  also have "\<dots> = take j arr @ map conv (drop j val)"
  proof -
    have "take (Suc j) (arr[j := conv (val ! j)]) = take j arr @ [conv (val ! j)]"
      using j Suc.prems by (simp add: take_Suc_conv_app_nth)
    moreover have "drop j val = val ! j # drop (Suc j) val"
      using j by (simp add: Cons_nth_drop_Suc)
    ultimately show ?thesis by simp
  qed
  finally show ?case .
qed

text \<open>Whatever the fresh array held, the loop leaves the converted vector in it.\<close>

lemma marshal_loop_any_array:
  assumes "length val < 2 ^ 64" "length arr = length val"
  shows "marshal_loop conv val 0 arr = map conv val"
  using marshal_loop_from [OF assms, of 0 conv] by simp

lemma marshalled_array:
  assumes "length val < 2 ^ 64"
  shows "marshal_loop conv val 0 (new_array (vector_size val)) = map conv val"
  using assms by (intro marshal_loop_any_array) (simp_all add: new_array_def vector_size_def unat_of_nat_size)

lemma string_assign_terminated:
  assumes "NUL \<in> set buf"
  shows "\<exists>r rest. string_assign buf = Inr r \<and> buf = r @ NUL # rest \<and> NUL \<notin> set r"
proof -
  let ?r = "takeWhile (\<lambda>c. c \<noteq> NUL) buf"
  let ?d = "dropWhile (\<lambda>c. c \<noteq> NUL) buf"
  have "?d \<noteq> []" using assms by (simp add: dropWhile_eq_Nil_conv)
  moreover have "hd ?d = NUL" using \<open>?d \<noteq> []\<close> hd_dropWhile [of "\<lambda>c. c \<noteq> NUL" buf] by simp
  ultimately have "?d = NUL # tl ?d" by (cases ?d) simp_all
  then have "buf = ?r @ NUL # tl ?d"
    using takeWhile_dropWhile_id [of "\<lambda>c. c \<noteq> NUL" buf] by simp
  moreover have "NUL \<notin> set ?r"
    using set_takeWhileD by fastforce
  ultimately show ?thesis
    using assms by (auto simp add: string_assign_def)
qed

lemma string_assign_c_str:
  assumes "NUL \<notin> set s"
  shows "string_assign (s @ [NUL]) = Inr s"
proof -
  have "takeWhile (\<lambda>c. c \<noteq> NUL) (s @ [NUL]) = s @ takeWhile (\<lambda>c. c \<noteq> NUL) [NUL]"
    using assms by (intro takeWhile_append2) auto
  then show ?thesis
    by (simp add: string_assign_def)
qed

text \<open>The four getters that convert a string or an array, one projection at a time.\<close>

lemma string_getter_result:
  "fst (SimAttribute_name attr w) = string_result (fst (name_raw attr (host w)))"
  "fst (ConfigurationParameterCell_expression cell w)
     = string_result (fst (expression_raw cell (host w)))"
  by (simp_all add: SimAttribute_name_def ConfigurationParameterCell_expression_def
      string_result_def call_raw_def split_def Let_def split: option.splits sum.splits)

lemma vector_getter_result:
  "fst (SimAttribute_inputEntities attr w)
     = vector_result (fst (inputEntities_raw attr (host w)))"
  "fst (AdditiveFEADeckBuilder_cards db w) = vector_result (fst (cards_raw db (host w)))"
  by (simp_all add: SimAttribute_inputEntities_def AdditiveFEADeckBuilder_cards_def
      vector_result_def call_raw_def split_def Let_def split: option.splits sum.splits)

lemma getter_raw_calls:
  "raw_calls (trace (snd (SimAttribute_name attr w)))
     = raw_calls (trace w) @ [SimAttribute_raw Call_name_raw]"
  "raw_calls (trace (snd (ConfigurationParameterCell_expression cell w)))
     = raw_calls (trace w) @ [ConfigurationParameterCell_raw Call_expression_raw]"
  "raw_calls (trace (snd (SimAttribute_inputEntities attr w)))
     = raw_calls (trace w) @ [SimAttribute_raw Call_inputEntities_raw]"
  "raw_calls (trace (snd (AdditiveFEADeckBuilder_cards db w)))
     = raw_calls (trace w) @ [AdditiveFEADeckBuilder_raw Call_cards_raw]"
  by (simp_all add: SimAttribute_name_def ConfigurationParameterCell_expression_def
      SimAttribute_inputEntities_def AdditiveFEADeckBuilder_cards_def DeallocateArray_def
      raw_calls_append call_raw_def split_def Let_def split: option.splits sum.splits)

lemma getter_host:
  "host (snd (SimAttribute_name attr w)) = snd (name_raw attr (host w))"
  "host (snd (ConfigurationParameterCell_expression cell w)) = snd (expression_raw cell (host w))"
  "host (snd (SimAttribute_inputEntities attr w)) = snd (inputEntities_raw attr (host w))"
  "host (snd (AdditiveFEADeckBuilder_cards db w)) = snd (cards_raw db (host w))"
  by (simp_all add: SimAttribute_name_def ConfigurationParameterCell_expression_def
      SimAttribute_inputEntities_def AdditiveFEADeckBuilder_cards_def DeallocateArray_def
      call_raw_def split_def Let_def split: option.splits sum.splits)

lemma marshal_loop_Nil: "marshal_loop conv [] 0 (new_array 0) = []"
  by (subst marshal_loop.simps) (simp add: vector_size_def new_array_def)

section \<open>Facts about the collection loop\<close>

text \<open>In a host state that the two raw methods leave as it is, the loop runs from \<open>i\<close> to the count.\<close>

lemma copyTo_loop_fixed:
  assumes cnt: "count_raw this h = (n, h)"
    and itm: "\<forall>i<n. snd (item_raw this i h) = h"
    and "host w = h" "i \<le> n"
  shows "fst (copyTo_loop this i result w)
           = result @ map (\<lambda>k. Ptr (fst (item_raw this (of_nat k) h))) [unat i..<unat n]
         \<and> host (snd (copyTo_loop this i result w)) = h"
  using assms(3,4)
proof (induction "unat n - unat i" arbitrary: i result w)
  case 0
  then have "\<not> i < n" by (simp add: word_less_nat_alt)
  moreover have "i = n" using 0 by (simp add: word_le_nat_alt word_unat_eq_iff)
  ultimately show ?case
    using 0 cnt
    by (subst (1 2) copyTo_loop.simps)
       (simp add: LoadCaseItems_count_def call_raw_def)
next
  case (Suc k)
  have lt: "i < n" using Suc.hyps(2) by (simp add: word_less_nat_alt)
  have su: "unat (i + 1) = Suc (unat i)" using lt by unat_arith
  have le: "i + 1 \<le> n" using lt by (rule inc_le)
  define w1 where "w1 = snd (LoadCaseItems_count this w)"
  define w2 where "w2 = snd (LoadCaseItems_item this i w1)"
  define x where "x = fst (LoadCaseItems_item this i w1)"
  have h1: "host w1 = h" and c1: "fst (LoadCaseItems_count this w) = n"
    using Suc.prems(1) cnt by (simp_all add: w1_def LoadCaseItems_count_def call_raw_def)
  have h2: "host w2 = h"
    using h1 itm lt by (simp add: w2_def LoadCaseItems_item_def call_raw_def split_def Let_def)
  have x: "x = Ptr (fst (item_raw this i h))"
    using h1 by (simp add: x_def LoadCaseItems_item_def call_raw_def split_def Let_def)
  have step: "copyTo_loop this i result w = copyTo_loop this (i + 1) (result @ [x]) w2"
    using lt c1 by (subst copyTo_loop.simps) (simp add: split_def Let_def w1_def w2_def x_def)
  have k: "k = unat n - unat (i + 1)" using Suc.hyps(2) su by simp
  have IH: "fst (copyTo_loop this (i + 1) (result @ [x]) w2)
           = (result @ [x]) @ map (\<lambda>k. Ptr (fst (item_raw this (of_nat k) h))) [unat (i + 1)..<unat n]
         \<and> host (snd (copyTo_loop this (i + 1) (result @ [x]) w2)) = h"
    using k h2 le by (rule Suc.hyps(1))
  have "[unat i..<unat n] = unat i # [Suc (unat i)..<unat n]"
    using lt by (simp add: upt_conv_Cons word_less_nat_alt)
  then show ?case
    using IH by (simp add: step su x)
qed

text \<open>What both raw methods preserve, the loop preserves.\<close>

lemma copyTo_loop_frame:
  "(\<And>h. obs (snd (count_raw this h)) = obs h) \<Longrightarrow>
   (\<And>i h. obs (snd (item_raw this i h)) = obs h) \<Longrightarrow>
   obs (host (snd (copyTo_loop this i result w))) = obs (host w)"
proof (induction this i result w rule: copyTo_loop.induct)
  case (1 this i result w)
  show ?case
  proof (cases "i < fst (LoadCaseItems_count this w)")
    case True
    have "obs (host (snd (copyTo_loop this i result w)))
          = obs (host (snd (LoadCaseItems_item this i (snd (LoadCaseItems_count this w)))))"
      using True "1.IH" [OF refl prod.collapse True refl prod.collapse "1.prems"]
      by (subst copyTo_loop.simps) (simp add: split_def Let_def)
    then show ?thesis
      using "1.prems"
      by (simp add: LoadCaseItems_item_def LoadCaseItems_count_def call_raw_def split_def Let_def)
  next
    case False
    then show ?thesis
      using "1.prems"
      by (subst copyTo_loop.simps)
         (simp add: split_def Let_def LoadCaseItems_count_def call_raw_def)
  qed
qed

section \<open>One raw call behind every wrapper\<close>

text \<open>
  Claim C1 says that every public method returns the result of one call of its raw method
  (wrapped in a \<open>core::Ptr\<close> for a pointer, unchanged for \<open>bool\<close>, \<open>double\<close>, enumeration
  and \<open>size_t\<close>) and makes no other raw call. \<open>LoadCaseItems::copyTo\<close> is a public method
  without a raw method of its own: on a collection of two items it asks \<open>count_raw\<close> three
  times and \<open>item_raw\<close> twice.
\<close>

theorem copyTo_makes_five_raw_calls:
  "raw_calls (trace (snd (LoadCaseItems_copyTo (items_of 2) [] (start 0 :: (nat, nat) world))))
     = [LoadCaseItems_raw Call_count_raw, LoadCaseItems_raw (Call_item_raw 0),
        LoadCaseItems_raw Call_count_raw, LoadCaseItems_raw (Call_item_raw 1),
        LoadCaseItems_raw Call_count_raw]"
  by (simp add: LoadCaseItems_copyTo_def copyTo_loop.simps [of _ 0] copyTo_loop.simps [of _ 1]
      copyTo_loop.simps [of _ 2] LoadCaseItems_count_def LoadCaseItems_item_def call_raw_def
      items_of_def start_def)

text \<open>
  Claim C1, amended: every public method that has a raw method, that is every inline wrapper
  of the six classes other than \<open>LoadCaseItems::copyTo\<close>, makes exactly one raw call, the
  call of its own raw method, and returns that call's result: wrapped in a \<open>core::Ptr\<close>
  for a pointer, unchanged for \<open>bool\<close>, \<open>double\<close>, enumeration, \<open>size_t\<close> and \<open>void\<close>,
  converted to the owning string or vector for a \<open>char*\<close> or an array. In particular each
  of the six \<open>ConstraintMask\<close> getters returns the value of its raw getter, and each setter
  the value of its raw setter applied to the same \<open>bool\<close>. The vectors are those of C++,
  with fewer than \<open>2 ^ 64\<close> elements.
\<close>

theorem wrapper_returns_its_one_raw_call:
  assumes "length strs < 2 ^ 64" and "length ents < 2 ^ 64"
  shows
  "one_raw_call w (ConstraintMask_isDisplacementConstrainedX cm w)
       (ConstraintMask_raw Call_isDisplacementConstrainedX_raw)
       (isDisplacementConstrainedX_raw cm (host w)) id
   \<and> one_raw_call w (ConstraintMask_isDisplacementConstrainedX_set cm b w)
       (ConstraintMask_raw (Call_isDisplacementConstrainedX_raw_set b))
       (isDisplacementConstrainedX_raw_set cm b (host w)) id
   \<and> one_raw_call w (ConstraintMask_isDisplacementConstrainedY cm w)
       (ConstraintMask_raw Call_isDisplacementConstrainedY_raw)
       (isDisplacementConstrainedY_raw cm (host w)) id
   \<and> one_raw_call w (ConstraintMask_isDisplacementConstrainedY_set cm b w)
       (ConstraintMask_raw (Call_isDisplacementConstrainedY_raw_set b))
       (isDisplacementConstrainedY_raw_set cm b (host w)) id
   \<and> one_raw_call w (ConstraintMask_isDisplacementConstrainedZ cm w)
       (ConstraintMask_raw Call_isDisplacementConstrainedZ_raw)
       (isDisplacementConstrainedZ_raw cm (host w)) id
   \<and> one_raw_call w (ConstraintMask_isDisplacementConstrainedZ_set cm b w)
       (ConstraintMask_raw (Call_isDisplacementConstrainedZ_raw_set b))
       (isDisplacementConstrainedZ_raw_set cm b (host w)) id
   \<and> one_raw_call w (ConstraintMask_isRotationConstrainedX cm w)
       (ConstraintMask_raw Call_isRotationConstrainedX_raw)
       (isRotationConstrainedX_raw cm (host w)) id
   \<and> one_raw_call w (ConstraintMask_isRotationConstrainedX_set cm b w)
       (ConstraintMask_raw (Call_isRotationConstrainedX_raw_set b))
       (isRotationConstrainedX_raw_set cm b (host w)) id
   \<and> one_raw_call w (ConstraintMask_isRotationConstrainedY cm w)
       (ConstraintMask_raw Call_isRotationConstrainedY_raw)
       (isRotationConstrainedY_raw cm (host w)) id
   \<and> one_raw_call w (ConstraintMask_isRotationConstrainedY_set cm b w)
       (ConstraintMask_raw (Call_isRotationConstrainedY_raw_set b))
       (isRotationConstrainedY_raw_set cm b (host w)) id
   \<and> one_raw_call w (ConstraintMask_isRotationConstrainedZ cm w)
       (ConstraintMask_raw Call_isRotationConstrainedZ_raw)
       (isRotationConstrainedZ_raw cm (host w)) id
   \<and> one_raw_call w (ConstraintMask_isRotationConstrainedZ_set cm b w)
       (ConstraintMask_raw (Call_isRotationConstrainedZ_raw_set b))
       (isRotationConstrainedZ_raw_set cm b (host w)) id
   \<and> one_raw_call w (StructuralConstraint_type sc w)
       (StructuralConstraint_raw Call_type_raw)
       (type_raw sc (host w)) id
   \<and> one_raw_call w (StructuralConstraint_type_set sc t w)
       (StructuralConstraint_raw (Call_type_raw_set t))
       (type_raw_set sc t (host w)) id
   \<and> one_raw_call w (StructuralConstraint_mask sc w)
       (StructuralConstraint_raw Call_mask_raw)
       (mask_raw sc (host w)) Ptr
   \<and> one_raw_call w (StructuralConstraint_mask_set sc p w)
       (StructuralConstraint_raw (Call_mask_raw_set (get p)))
       (mask_raw_set sc (get p) (host w)) id
   \<and> one_raw_call w (StructuralConstraint_displacements sc w)
       (StructuralConstraint_raw Call_displacements_raw)
       (displacements_raw sc (host w)) Ptr
   \<and> one_raw_call w (StructuralConstraint_displacements_set sc p w)
       (StructuralConstraint_raw (Call_displacements_raw_set (get p)))
       (displacements_raw_set sc (get p) (host w)) id
   \<and> one_raw_call w (StructuralConstraint_rotations sc w)
       (StructuralConstraint_raw Call_rotations_raw)
       (rotations_raw sc (host w)) Ptr
   \<and> one_raw_call w (StructuralConstraint_rotations_set sc p w)
       (StructuralConstraint_raw (Call_rotations_raw_set (get p)))
       (rotations_raw_set sc (get p) (host w)) id
   \<and> one_raw_call w (SimAttribute_name attr w)
       (SimAttribute_raw Call_name_raw)
       (name_raw attr (host w)) string_result
   \<and> one_raw_call w (SimAttribute_name_set attr s w)
       (SimAttribute_raw (Call_name_raw_set (c_str s)))
       (name_raw_set attr (c_str s) (host w)) id
   \<and> one_raw_call w (SimAttribute_inputEntities attr w)
       (SimAttribute_raw Call_inputEntities_raw)
       (inputEntities_raw attr (host w)) vector_result
   \<and> one_raw_call w (SimAttribute_inputEntities_set attr ents w)
       (SimAttribute_raw (Call_inputEntities_raw_set (Some (map get ents)) (vector_size ents)))
       (inputEntities_raw_set attr (Some (map get ents)) (vector_size ents) (host w)) id
   \<and> one_raw_call w (LoadCaseItems_item items k w)
       (LoadCaseItems_raw (Call_item_raw k))
       (item_raw items k (host w)) Ptr
   \<and> one_raw_call w (LoadCaseItems_itemByName items s w)
       (LoadCaseItems_raw (Call_itemByName_raw (c_str s)))
       (itemByName_raw items (c_str s) (host w)) Ptr
   \<and> one_raw_call w (LoadCaseItems_count items w)
       (LoadCaseItems_raw Call_count_raw)
       (count_raw items (host w)) id
   \<and> one_raw_call w (ConfigurationParameterCell_parentColumn cell w)
       (ConfigurationParameterCell_raw Call_parentColumn_raw)
       (parentColumn_raw cell (host w)) Ptr
   \<and> one_raw_call w (ConfigurationParameterCell_expression cell w)
       (ConfigurationParameterCell_raw Call_expression_raw)
       (expression_raw cell (host w)) string_result
   \<and> one_raw_call w (ConfigurationParameterCell_expression_set cell s w)
       (ConfigurationParameterCell_raw (Call_expression_raw_set (c_str s)))
       (expression_raw_set cell (c_str s) (host w)) id
   \<and> one_raw_call w (ConfigurationParameterCell_value cell w)
       (ConfigurationParameterCell_raw Call_value_raw)
       (value_raw cell (host w)) id
   \<and> one_raw_call w (ConfigurationParameterCell_value_set cell d w)
       (ConfigurationParameterCell_raw (Call_value_raw_set d))
       (value_raw_set cell d (host w)) id
   \<and> one_raw_call w (AdditiveFEADeckBuilder_create db w)
       (AdditiveFEADeckBuilder_raw Call_create_raw)
       (create_raw db (host w)) Ptr
   \<and> one_raw_call w (AdditiveFEADeckBuilder_createSTLMap db w)
       (AdditiveFEADeckBuilder_raw Call_createSTLMap_raw)
       (createSTLMap_raw db (host w)) Ptr
   \<and> one_raw_call w (AdditiveFEADeckBuilder_createConvection db w)
       (AdditiveFEADeckBuilder_raw Call_createConvection_raw)
       (createConvection_raw db (host w)) Ptr
   \<and> one_raw_call w (AdditiveFEADeckBuilder_append db p w)
       (AdditiveFEADeckBuilder_raw (Call_append_raw (get p)))
       (append_raw db (get p) (host w)) id
   \<and> one_raw_call w (AdditiveFEADeckBuilder_createGenericCard db s s' w)
       (AdditiveFEADeckBuilder_raw (Call_createGenericCard_raw (c_str s) (c_str s')))
       (createGenericCard_raw db (c_str s) (c_str s') (host w)) Ptr
   \<and> one_raw_call w (AdditiveFEADeckBuilder_createVoidCard db crd w)
       (AdditiveFEADeckBuilder_raw (Call_createVoidCard_raw crd))
       (createVoidCard_raw db crd (host w)) Ptr
   \<and> one_raw_call w (AdditiveFEADeckBuilder_createIntCard db crd n w)
       (AdditiveFEADeckBuilder_raw (Call_createIntCard_raw crd n))
       (createIntCard_raw db crd n (host w)) Ptr
   \<and> one_raw_call w (AdditiveFEADeckBuilder_createDoubleCard db crd d w)
       (AdditiveFEADeckBuilder_raw (Call_createDoubleCard_raw crd d))
       (createDoubleCard_raw db crd d (host w)) Ptr
   \<and> one_raw_call w (AdditiveFEADeckBuilder_createStringCard db crd s w)
       (AdditiveFEADeckBuilder_raw (Call_createStringCard_raw crd (c_str s)))
       (createStringCard_raw db crd (c_str s) (host w)) Ptr
   \<and> one_raw_call w (AdditiveFEADeckBuilder_createStringArrayCard db crd strs w)
       (AdditiveFEADeckBuilder_raw (Call_createStringArrayCard_raw crd (string_array strs) (vector_size strs)))
       (createStringArrayCard_raw db crd (string_array strs) (vector_size strs) (host w)) Ptr
   \<and> one_raw_call w (AdditiveFEADeckBuilder_createBuildPlateZBoundsCard db d d' w)
       (AdditiveFEADeckBuilder_raw (Call_createBuildPlateZBoundsCard_raw d d'))
       (createBuildPlateZBoundsCard_raw db d d' (host w)) Ptr
   \<and> one_raw_call w (AdditiveFEADeckBuilder_createDiskCheckCard db n d w)
       (AdditiveFEADeckBuilder_raw (Call_createDiskCheckCard_raw n d))
       (createDiskCheckCard_raw db n d (host w)) Ptr
   \<and> one_raw_call w (AdditiveFEADeckBuilder_createSTLMapCard db p w)
       (AdditiveFEADeckBuilder_raw (Call_createSTLMapCard_raw (get p)))
       (createSTLMapCard_raw db (get p) (host w)) Ptr
   \<and> one_raw_call w (AdditiveFEADeckBuilder_createConvectionCard db p w)
       (AdditiveFEADeckBuilder_raw (Call_createConvectionCard_raw (get p)))
       (createConvectionCard_raw db (get p) (host w)) Ptr
   \<and> one_raw_call w (AdditiveFEADeckBuilder_createBuildPlateXYExtensionCard db d d' d'' d''' w)
       (AdditiveFEADeckBuilder_raw (Call_createBuildPlateXYExtensionCard_raw d d' d'' d'''))
       (createBuildPlateXYExtensionCard_raw db d d' d'' d''' (host w)) Ptr
   \<and> one_raw_call w (AdditiveFEADeckBuilder_cards db w)
       (AdditiveFEADeckBuilder_raw Call_cards_raw)
       (cards_raw db (host w)) vector_result"
  using assms
  by (simp add: one_raw_call_def wrapper_defs call_raw_def split_def Let_def raw_calls_append string_array_def
      marshalled_array string_getter_result vector_getter_result getter_raw_calls getter_host)

theorem wrapper_returns_its_one_raw_call_witness:
  "length [''a'', ''b''] < 2 ^ 64 \<and> length [Ptr (Some 1), Ptr None] < 2 ^ 64
   \<and> fst (AdditiveFEADeckBuilder_createStringArrayCard (builder_returning (None, None)) 7
           [''a'', ''b''] (start 5))
       = Ptr (Some 5)
   \<and> raw_calls (trace (snd (AdditiveFEADeckBuilder_createStringArrayCard
           (builder_returning (None, None)) 7 [''a'', ''b''] (start 5))))
       = [AdditiveFEADeckBuilder_raw
            (Call_createStringArrayCard_raw 7 (Some [Some (''a'' @ [NUL]), Some (''b'' @ [NUL])]) 2)]
   \<and> fst (ConstraintMask_isRotationConstrainedZ_set (mask_returning True) True
           (start 5 :: (nat, nat) world))
       = False"
  using wrapper_returns_its_one_raw_call
    [where strs = "[''a'', ''b'']" and ents = "[Ptr (Some 1), Ptr None]"
       and db = "builder_returning (None, None)" and crd = "7 :: nat" and w = "start 5"
       and cm = "mask_returning True" and b = True
       and sc = "constraint_returning None" and t = 6 and p = "Ptr None"
       and attr = "attribute_returning None (None, None)" and s = "''x''" and s' = "''y''"
       and items = "items_of 2" and k = 1 and cell = "cell_returning None"
       and d = 1 and d' = 2 and d'' = 3 and d''' = 4 and n = 9]
  by (simp add: one_raw_call_def builder_returning_def mask_returning_def constraint_returning_def attribute_returning_def
      cell_returning_def items_of_def start_def string_array_def c_str_def vector_size_def)

section \<open>Failure is false or null\<close>

text \<open>
  Claim C2: a public operation reports failure only by returning \<open>false\<close> or null. Every
  mutator returns the \<open>bool\<close> of its raw method unchanged (the fourteen setters; \<open>append\<close>
  is \<open>void\<close> and returns nothing), and the \<open>core::Ptr\<close> returned by a factory or an
  object-returning accessor is null exactly when the raw method returned the null pointer.
  The wrappers are total functions into \<open>bool\<close> and \<open>Ptr\<close>: the model has no other result
  for them. The vectors are those of C++, with fewer than \<open>2 ^ 64\<close> elements.
\<close>

theorem failure_is_false_or_null:
  assumes "length strs < 2 ^ 64" and "length ents < 2 ^ 64"
  shows
  "fst (ConstraintMask_isDisplacementConstrainedX_set cm b w)
       = fst (isDisplacementConstrainedX_raw_set cm b (host w))
   \<and> fst (ConstraintMask_isDisplacementConstrainedY_set cm b w)
       = fst (isDisplacementConstrainedY_raw_set cm b (host w))
   \<and> fst (ConstraintMask_isDisplacementConstrainedZ_set cm b w)
       = fst (isDisplacementConstrainedZ_raw_set cm b (host w))
   \<and> fst (ConstraintMask_isRotationConstrainedX_set cm b w)
       = fst (isRotationConstrainedX_raw_set cm b (host w))
   \<and> fst (ConstraintMask_isRotationConstrainedY_set cm b w)
       = fst (isRotationConstrainedY_raw_set cm b (host w))
   \<and> fst (ConstraintMask_isRotationConstrainedZ_set cm b w)
       = fst (isRotationConstrainedZ_raw_set cm b (host w))
   \<and> fst (StructuralConstraint_type_set sc t w)
       = fst (type_raw_set sc t (host w))
   \<and> fst (StructuralConstraint_mask_set sc p w)
       = fst (mask_raw_set sc (get p) (host w))
   \<and> fst (StructuralConstraint_displacements_set sc p w)
       = fst (displacements_raw_set sc (get p) (host w))
   \<and> fst (StructuralConstraint_rotations_set sc p w)
       = fst (rotations_raw_set sc (get p) (host w))
   \<and> fst (SimAttribute_name_set attr s w)
       = fst (name_raw_set attr (c_str s) (host w))
   \<and> fst (SimAttribute_inputEntities_set attr ents w)
       = fst (inputEntities_raw_set attr (Some (map get ents)) (vector_size ents) (host w))
   \<and> fst (ConfigurationParameterCell_expression_set cell s w)
       = fst (expression_raw_set cell (c_str s) (host w))
   \<and> fst (ConfigurationParameterCell_value_set cell d w)
       = fst (value_raw_set cell d (host w))
   \<and> is_null (fst (StructuralConstraint_mask sc w))
       = (fst (mask_raw sc (host w)) = None)
   \<and> is_null (fst (StructuralConstraint_displacements sc w))
       = (fst (displacements_raw sc (host w)) = None)
   \<and> is_null (fst (StructuralConstraint_rotations sc w))
       = (fst (rotations_raw sc (host w)) = None)
   \<and> is_null (fst (LoadCaseItems_item items k w))
       = (fst (item_raw items k (host w)) = None)
   \<and> is_null (fst (LoadCaseItems_itemByName items s w))
       = (fst (itemByName_raw items (c_str s) (host w)) = None)
   \<and> is_null (fst (ConfigurationParameterCell_parentColumn cell w))
       = (fst (parentColumn_raw cell (host w)) = None)
   \<and> is_null (fst (AdditiveFEADeckBuilder_create db w))
       = (fst (create_raw db (host w)) = None)
   \<and> is_null (fst (AdditiveFEADeckBuilder_createSTLMap db w))
       = (fst (createSTLMap_raw db (host w)) = None)
   \<and> is_null (fst (AdditiveFEADeckBuilder_createConvection db w))
       = (fst (createConvection_raw db (host w)) = None)
   \<and> is_null (fst (AdditiveFEADeckBuilder_createGenericCard db s s' w))
       = (fst (createGenericCard_raw db (c_str s) (c_str s') (host w)) = None)
   \<and> is_null (fst (AdditiveFEADeckBuilder_createVoidCard db crd w))
       = (fst (createVoidCard_raw db crd (host w)) = None)
   \<and> is_null (fst (AdditiveFEADeckBuilder_createIntCard db crd n w))
       = (fst (createIntCard_raw db crd n (host w)) = None)
   \<and> is_null (fst (AdditiveFEADeckBuilder_createDoubleCard db crd d w))
       = (fst (createDoubleCard_raw db crd d (host w)) = None)
   \<and> is_null (fst (AdditiveFEADeckBuilder_createStringCard db crd s w))
       = (fst (createStringCard_raw db crd (c_str s) (host w)) = None)
   \<and> is_null (fst (AdditiveFEADeckBuilder_createStringArrayCard db crd strs w))
       = (fst (createStringArrayCard_raw db crd (string_array strs) (vector_size strs) (host w)) = None)
   \<and> is_null (fst (AdditiveFEADeckBuilder_createBuildPlateZBoundsCard db d d' w))
       = (fst (createBuildPlateZBoundsCard_raw db d d' (host w)) = None)
   \<and> is_null (fst (AdditiveFEADeckBuilder_createDiskCheckCard db n d w))
       = (fst (createDiskCheckCard_raw db n d (host w)) = None)
   \<and> is_null (fst (AdditiveFEADeckBuilder_createSTLMapCard db p w))
       = (fst (createSTLMapCard_raw db (get p) (host w)) = None)
   \<and> is_null (fst (AdditiveFEADeckBuilder_createConvectionCard db p w))
       = (fst (createConvectionCard_raw db (get p) (host w)) = None)
   \<and> is_null (fst (AdditiveFEADeckBuilder_createBuildPlateXYExtensionCard db d d' d'' d''' w))
       = (fst (createBuildPlateXYExtensionCard_raw db d d' d'' d''' (host w)) = None)"
  using assms
  by (simp add: is_null_def wrapper_defs call_raw_def split_def Let_def raw_calls_append string_array_def
      marshalled_array string_getter_result vector_getter_result getter_raw_calls getter_host)

theorem failure_is_false_or_null_witness:
  "length ([] :: string list) < 2 ^ 64 \<and> length ([] :: Ptr list) < 2 ^ 64
   \<and> is_null (fst (AdditiveFEADeckBuilder_createStringArrayCard (builder_returning (None, None)) 7
        [] (start 5)))
   \<and> \<not> is_null (fst (AdditiveFEADeckBuilder_createIntCard (builder_returning (None, None)) 7
        9 (start 5)))
   \<and> \<not> fst (StructuralConstraint_mask_set (constraint_returning None) (Ptr None)
        (start 5 :: (nat, nat) world))"
  using failure_is_false_or_null
    [where strs = "[]" and ents = "[]"
       and db = "builder_returning (None, None)" and crd = "7 :: nat" and w = "start 5"
       and cm = "mask_returning True" and b = True
       and sc = "constraint_returning None" and t = 6 and p = "Ptr None"
       and attr = "attribute_returning None (None, None)" and s = "''x''" and s' = "''y''"
       and items = "items_of 2" and k = 1 and cell = "cell_returning None"
       and d = 1 and d' = 2 and d'' = 3 and d''' = 4 and n = 9]
  by (simp add: builder_returning_def mask_returning_def constraint_returning_def attribute_returning_def
      cell_returning_def items_of_def start_def string_array_def c_str_def vector_size_def)

section \<open>No argument is rejected\<close>

text \<open>
  Claim C6 says that every public method reaches its raw method exactly once, whatever the
  argument, and passes the argument through. \<open>LoadCaseItems::copyTo\<close> takes an argument,
  the output iterator, and has no raw method to pass it to: on a collection of one item
  it makes three raw calls, and none of them carries the iterator.
\<close>

theorem copyTo_reaches_raw_methods_three_times:
  "raw_calls (trace (snd (LoadCaseItems_copyTo (items_of 1) [] (start 0 :: (nat, nat) world))))
     = [LoadCaseItems_raw Call_count_raw, LoadCaseItems_raw (Call_item_raw 0),
        LoadCaseItems_raw Call_count_raw]"
  by (simp add: LoadCaseItems_copyTo_def copyTo_loop.simps [of _ 0] copyTo_loop.simps [of _ 1]
      LoadCaseItems_count_def LoadCaseItems_item_def call_raw_def items_of_def start_def)

text \<open>
  Claim C6, amended: every public method other than \<open>LoadCaseItems::copyTo\<close> reaches its
  raw method exactly once for every argument value, and the raw method receives the
  argument as it was given: a scalar or an enumeration value unchanged, the raw pointer of
  a \<open>core::Ptr\<close>, the C string of a string, the array and the size of a vector. No input
  is rejected or filtered: for every argument, what the public method returns and the
  state in which it leaves the host are those of its raw method applied to that argument,
  and the one raw call made is that application. The last six statements are the cases
  the claim names: a null \<open>core::Ptr\<close> arrives as the null pointer, the empty string as an
  empty C string, the empty vector with size 0 (as a null array from
  \<open>createStringArrayCard\<close>, as an array without entries from \<open>inputEntities\<close>), and the
  value after the last enumerator as it is. The vectors are those of C++, with fewer than
  \<open>2 ^ 64\<close> elements.
\<close>

theorem every_argument_reaches_the_raw_method:
  assumes "length strs < 2 ^ 64" and "length ents < 2 ^ 64"
  shows
  "reaches_raw_method w (ConstraintMask_isDisplacementConstrainedX cm w)
       (ConstraintMask_raw Call_isDisplacementConstrainedX_raw)
       (isDisplacementConstrainedX_raw cm (host w)) id
   \<and> reaches_raw_method w (ConstraintMask_isDisplacementConstrainedX_set cm b w)
       (ConstraintMask_raw (Call_isDisplacementConstrainedX_raw_set b))
       (isDisplacementConstrainedX_raw_set cm b (host w)) id
   \<and> reaches_raw_method w (ConstraintMask_isDisplacementConstrainedY cm w)
       (ConstraintMask_raw Call_isDisplacementConstrainedY_raw)
       (isDisplacementConstrainedY_raw cm (host w)) id
   \<and> reaches_raw_method w (ConstraintMask_isDisplacementConstrainedY_set cm b w)
       (ConstraintMask_raw (Call_isDisplacementConstrainedY_raw_set b))
       (isDisplacementConstrainedY_raw_set cm b (host w)) id
   \<and> reaches_raw_method w (ConstraintMask_isDisplacementConstrainedZ cm w)
       (ConstraintMask_raw Call_isDisplacementConstrainedZ_raw)
       (isDisplacementConstrainedZ_raw cm (host w)) id
   \<and> reaches_raw_method w (ConstraintMask_isDisplacementConstrainedZ_set cm b w)
       (ConstraintMask_raw (Call_isDisplacementConstrainedZ_raw_set b))
       (isDisplacementConstrainedZ_raw_set cm b (host w)) id
   \<and> reaches_raw_method w (ConstraintMask_isRotationConstrainedX cm w)
       (ConstraintMask_raw Call_isRotationConstrainedX_raw)
       (isRotationConstrainedX_raw cm (host w)) id
   \<and> reaches_raw_method w (ConstraintMask_isRotationConstrainedX_set cm b w)
       (ConstraintMask_raw (Call_isRotationConstrainedX_raw_set b))
       (isRotationConstrainedX_raw_set cm b (host w)) id
   \<and> reaches_raw_method w (ConstraintMask_isRotationConstrainedY cm w)
       (ConstraintMask_raw Call_isRotationConstrainedY_raw)
       (isRotationConstrainedY_raw cm (host w)) id
   \<and> reaches_raw_method w (ConstraintMask_isRotationConstrainedY_set cm b w)
       (ConstraintMask_raw (Call_isRotationConstrainedY_raw_set b))
       (isRotationConstrainedY_raw_set cm b (host w)) id
   \<and> reaches_raw_method w (ConstraintMask_isRotationConstrainedZ cm w)
       (ConstraintMask_raw Call_isRotationConstrainedZ_raw)
       (isRotationConstrainedZ_raw cm (host w)) id
   \<and> reaches_raw_method w (ConstraintMask_isRotationConstrainedZ_set cm b w)
       (ConstraintMask_raw (Call_isRotationConstrainedZ_raw_set b))
       (isRotationConstrainedZ_raw_set cm b (host w)) id
   \<and> reaches_raw_method w (StructuralConstraint_type sc w)
       (StructuralConstraint_raw Call_type_raw)
       (type_raw sc (host w)) id
   \<and> reaches_raw_method w (StructuralConstraint_type_set sc t w)
       (StructuralConstraint_raw (Call_type_raw_set t))
       (type_raw_set sc t (host w)) id
   \<and> reaches_raw_method w (StructuralConstraint_mask sc w)
       (StructuralConstraint_raw Call_mask_raw)
       (mask_raw sc (host w)) Ptr
   \<and> reaches_raw_method w (StructuralConstraint_mask_set sc p w)
       (StructuralConstraint_raw (Call_mask_raw_set (get p)))
       (mask_raw_set sc (get p) (host w)) id
   \<and> reaches_raw_method w (StructuralConstraint_displacements sc w)
       (StructuralConstraint_raw Call_displacements_raw)
       (displacements_raw sc (host w)) Ptr
   \<and> reaches_raw_method w (StructuralConstraint_displacements_set sc p w)
       (StructuralConstraint_raw (Call_displacements_raw_set (get p)))
       (displacements_raw_set sc (get p) (host w)) id
   \<and> reaches_raw_method w (StructuralConstraint_rotations sc w)
       (StructuralConstraint_raw Call_rotations_raw)
       (rotations_raw sc (host w)) Ptr
   \<and> reaches_raw_method w (StructuralConstraint_rotations_set sc p w)
       (StructuralConstraint_raw (Call_rotations_raw_set (get p)))
       (rotations_raw_set sc (get p) (host w)) id
   \<and> reaches_raw_method w (SimAttribute_name attr w)
       (SimAttribute_raw Call_name_raw)
       (name_raw attr (host w)) string_result
   \<and> reaches_raw_method w (SimAttribute_name_set attr s w)
       (SimAttribute_raw (Call_name_raw_set (c_str s)))
       (name_raw_set attr (c_str s) (host w)) id
   \<and> reaches_raw_method w (SimAttribute_inputEntities attr w)
       (SimAttribute_raw Call_inputEntities_raw)
       (inputEntities_raw attr (host w)) vector_result
   \<and> reaches_raw_method w (SimAttribute_inputEntities_set attr ents w)
       (SimAttribute_raw (Call_inputEntities_raw_set (Some (map get ents)) (vector_size ents)))
       (inputEntities_raw_set attr (Some (map get ents)) (vector_size ents) (host w)) id
   \<and> reaches_raw_method w (LoadCaseItems_item items k w)
       (LoadCaseItems_raw (Call_item_raw k))
       (item_raw items k (host w)) Ptr
   \<and> reaches_raw_method w (LoadCaseItems_itemByName items s w)
       (LoadCaseItems_raw (Call_itemByName_raw (c_str s)))
       (itemByName_raw items (c_str s) (host w)) Ptr
   \<and> reaches_raw_method w (LoadCaseItems_count items w)
       (LoadCaseItems_raw Call_count_raw)
       (count_raw items (host w)) id
   \<and> reaches_raw_method w (ConfigurationParameterCell_parentColumn cell w)
       (ConfigurationParameterCell_raw Call_parentColumn_raw)
       (parentColumn_raw cell (host w)) Ptr
   \<and> reaches_raw_method w (ConfigurationParameterCell_expression cell w)
       (ConfigurationParameterCell_raw Call_expression_raw)
       (expression_raw cell (host w)) string_result
   \<and> reaches_raw_method w (ConfigurationParameterCell_expression_set cell s w)
       (ConfigurationParameterCell_raw (Call_expression_raw_set (c_str s)))
       (expression_raw_set cell (c_str s) (host w)) id
   \<and> reaches_raw_method w (ConfigurationParameterCell_value cell w)
       (ConfigurationParameterCell_raw Call_value_raw)
       (value_raw cell (host w)) id
   \<and> reaches_raw_method w (ConfigurationParameterCell_value_set cell d w)
       (ConfigurationParameterCell_raw (Call_value_raw_set d))
       (value_raw_set cell d (host w)) id
   \<and> reaches_raw_method w (AdditiveFEADeckBuilder_create db w)
       (AdditiveFEADeckBuilder_raw Call_create_raw)
       (create_raw db (host w)) Ptr
   \<and> reaches_raw_method w (AdditiveFEADeckBuilder_createSTLMap db w)
       (AdditiveFEADeckBuilder_raw Call_createSTLMap_raw)
       (createSTLMap_raw db (host w)) Ptr
   \<and> reaches_raw_method w (AdditiveFEADeckBuilder_createConvection db w)
       (AdditiveFEADeckBuilder_raw Call_createConvection_raw)
       (createConvection_raw db (host w)) Ptr
   \<and> reaches_raw_method w (AdditiveFEADeckBuilder_append db p w)
       (AdditiveFEADeckBuilder_raw (Call_append_raw (get p)))
       (append_raw db (get p) (host w)) id
   \<and> reaches_raw_method w (AdditiveFEADeckBuilder_createGenericCard db s s' w)
       (AdditiveFEADeckBuilder_raw (Call_createGenericCard_raw (c_str s) (c_str s')))
       (createGenericCard_raw db (c_str s) (c_str s') (host w)) Ptr
   \<and> reaches_raw_method w (AdditiveFEADeckBuilder_createVoidCard db crd w)
       (AdditiveFEADeckBuilder_raw (Call_createVoidCard_raw crd))
       (createVoidCard_raw db crd (host w)) Ptr
   \<and> reaches_raw_method w (AdditiveFEADeckBuilder_createIntCard db crd n w)
       (AdditiveFEADeckBuilder_raw (Call_createIntCard_raw crd n))
       (createIntCard_raw db crd n (host w)) Ptr
   \<and> reaches_raw_method w (AdditiveFEADeckBuilder_createDoubleCard db crd d w)
       (AdditiveFEADeckBuilder_raw (Call_createDoubleCard_raw crd d))
       (createDoubleCard_raw db crd d (host w)) Ptr
   \<and> reaches_raw_method w (AdditiveFEADeckBuilder_createStringCard db crd s w)
       (AdditiveFEADeckBuilder_raw (Call_createStringCard_raw crd (c_str s)))
       (createStringCard_raw db crd (c_str s) (host w)) Ptr
   \<and> reaches_raw_method w (AdditiveFEADeckBuilder_createStringArrayCard db crd strs w)
       (AdditiveFEADeckBuilder_raw (Call_createStringArrayCard_raw crd (string_array strs) (vector_size strs)))
       (createStringArrayCard_raw db crd (string_array strs) (vector_size strs) (host w)) Ptr
   \<and> reaches_raw_method w (AdditiveFEADeckBuilder_createBuildPlateZBoundsCard db d d' w)
       (AdditiveFEADeckBuilder_raw (Call_createBuildPlateZBoundsCard_raw d d'))
       (createBuildPlateZBoundsCard_raw db d d' (host w)) Ptr
   \<and> reaches_raw_method w (AdditiveFEADeckBuilder_createDiskCheckCard db n d w)
       (AdditiveFEADeckBuilder_raw (Call_createDiskCheckCard_raw n d))
       (createDiskCheckCard_raw db n d (host w)) Ptr
   \<and> reaches_raw_method w (AdditiveFEADeckBuilder_createSTLMapCard db p w)
       (AdditiveFEADeckBuilder_raw (Call_createSTLMapCard_raw (get p)))
       (createSTLMapCard_raw db (get p) (host w)) Ptr
   \<and> reaches_raw_method w (AdditiveFEADeckBuilder_createConvectionCard db p w)
       (AdditiveFEADeckBuilder_raw (Call_createConvectionCard_raw (get p)))
       (createConvectionCard_raw db (get p) (host w)) Ptr
   \<and> reaches_raw_method w (AdditiveFEADeckBuilder_createBuildPlateXYExtensionCard db d d' d'' d''' w)
       (AdditiveFEADeckBuilder_raw (Call_createBuildPlateXYExtensionCard_raw d d' d'' d'''))
       (createBuildPlateXYExtensionCard_raw db d d' d'' d''' (host w)) Ptr
   \<and> reaches_raw_method w (AdditiveFEADeckBuilder_cards db w)
       (AdditiveFEADeckBuilder_raw Call_cards_raw)
       (cards_raw db (host w)) vector_result
   \<and> reaches_raw_method w (AdditiveFEADeckBuilder_append db (Ptr None) w)
       (AdditiveFEADeckBuilder_raw (Call_append_raw None))
       (append_raw db None (host w)) id
   \<and> reaches_raw_method w (StructuralConstraint_mask_set sc (Ptr None) w)
       (StructuralConstraint_raw (Call_mask_raw_set None))
       (mask_raw_set sc None (host w)) id
   \<and> reaches_raw_method w (SimAttribute_name_set attr [] w)
       (SimAttribute_raw (Call_name_raw_set (Some [NUL])))
       (name_raw_set attr (Some [NUL]) (host w)) id
   \<and> reaches_raw_method w (AdditiveFEADeckBuilder_createStringArrayCard db crd [] w)
       (AdditiveFEADeckBuilder_raw (Call_createStringArrayCard_raw crd None 0))
       (createStringArrayCard_raw db crd None 0 (host w)) Ptr
   \<and> reaches_raw_method w (SimAttribute_inputEntities_set attr [] w)
       (SimAttribute_raw (Call_inputEntities_raw_set (Some []) 0))
       (inputEntities_raw_set attr (Some []) 0 (host w)) id
   \<and> reaches_raw_method w (StructuralConstraint_type_set sc (RemoteConstraintType + 1) w)
       (StructuralConstraint_raw (Call_type_raw_set 6))
       (type_raw_set sc 6 (host w)) id"
  using assms
  by (simp add: reaches_raw_method_def RemoteConstraintType_def c_str_def vector_size_Nil
      marshal_loop_Nil
      wrapper_defs call_raw_def split_def Let_def raw_calls_append string_array_def
      marshalled_array string_getter_result vector_getter_result getter_raw_calls getter_host)

theorem every_argument_reaches_the_raw_method_witness:
  "length [''a'', ''b''] < 2 ^ 64 \<and> length [Ptr (Some 1), Ptr None] < 2 ^ 64
   \<and> raw_calls (trace (snd (SimAttribute_inputEntities_set (attribute_returning None (None, None))
        [Ptr (Some 1), Ptr None] (start 5 :: (nat, nat) world))))
       = [SimAttribute_raw (Call_inputEntities_raw_set (Some [Some 1, None]) 2)]
   \<and> fst (SimAttribute_inputEntities_set (attribute_returning None (None, None))
        [Ptr (Some 1), Ptr None] (start 5 :: (nat, nat) world))
   \<and> host (snd (SimAttribute_inputEntities_set (attribute_returning None (None, None))
        [Ptr (Some 1), Ptr None] (start 5 :: (nat, nat) world))) = 6
   \<and> fst (StructuralConstraint_mask_set (constraint_returning None) (Ptr (Some 3))
        (start 5 :: (nat, nat) world))
   \<and> raw_calls (trace (snd (StructuralConstraint_mask_set (constraint_returning None)
        (Ptr (Some 3)) (start 5 :: (nat, nat) world))))
       = [StructuralConstraint_raw (Call_mask_raw_set (Some 3))]
   \<and> \<not> fst (StructuralConstraint_mask_set (constraint_returning None) (Ptr None)
        (start 5 :: (nat, nat) world))
   \<and> \<not> fst (StructuralConstraint_type_set (constraint_returning None) 6
        (start 5 :: (nat, nat) world))
   \<and> raw_calls (trace (snd (StructuralConstraint_type_set (constraint_returning None) 6
        (start 5 :: (nat, nat) world))))
       = [StructuralConstraint_raw (Call_type_raw_set 6)]
   \<and> host (snd (AdditiveFEADeckBuilder_append (builder_returning (None, None)) (Ptr (Some 3))
        (start 5))) = 6"
  using every_argument_reaches_the_raw_method
    [where strs = "[''a'', ''b'']" and ents = "[Ptr (Some 1), Ptr None]"
       and db = "builder_returning (None, None)" and crd = "7 :: nat" and w = "start 5"
       and cm = "mask_returning True" and b = True
       and sc = "constraint_returning None" and t = 6 and p = "Ptr (Some 3)"
       and attr = "attribute_returning None (None, None)" and s = "''x''" and s' = "''y''"
       and items = "items_of 2" and k = 1 and cell = "cell_returning None"
       and d = 1 and d' = 2 and d'' = 3 and d''' = 4 and n = 9]
  by (simp add: reaches_raw_method_def RemoteConstraintType_def builder_returning_def mask_returning_def constraint_returning_def attribute_returning_def
      cell_returning_def items_of_def start_def string_array_def c_str_def vector_size_def)

section \<open>The wrappers keep no state\<close>

text \<open>
  Claim C7: the wrapper layer is stateless. The classes declare no data member (an object
  of the model is the table of its raw methods and nothing else), so the only state a
  public method reads or writes is the host state that its raw call touches: the host
  state after the public method is the host state after the raw call. What the raw method
  leaves as it is, the public method leaves as it is. A getter that received an array
  gives it back through \<open>core::DeallocateArray\<close>; the array came from that raw call, and
  the trace shows the call while the host state does not change by it. For
  \<open>LoadCaseItems::copyTo\<close>, whose
  raw calls are those of \<open>count\<close> and \<open>item\<close>, the frame property is the last statement:
  whatever \<open>count_raw\<close> and \<open>item_raw\<close> preserve, \<open>copyTo\<close> preserves. The vectors are those
  of C++, with fewer than \<open>2 ^ 64\<close> elements.
\<close>

theorem public_method_changes_what_its_raw_call_changes:
  assumes "length strs < 2 ^ 64" and "length ents < 2 ^ 64"
  shows
  "host (snd (ConstraintMask_isDisplacementConstrainedX cm w))
       = snd (isDisplacementConstrainedX_raw cm (host w))
   \<and> host (snd (ConstraintMask_isDisplacementConstrainedX_set cm b w))
       = snd (isDisplacementConstrainedX_raw_set cm b (host w))
   \<and> host (snd (ConstraintMask_isDisplacementConstrainedY cm w))
       = snd (isDisplacementConstrainedY_raw cm (host w))
   \<and> host (snd (ConstraintMask_isDisplacementConstrainedY_set cm b w))
       = snd (isDisplacementConstrainedY_raw_set cm b (host w))
   \<and> host (snd (ConstraintMask_isDisplacementConstrainedZ cm w))
       = snd (isDisplacementConstrainedZ_raw cm (host w))
   \<and> host (snd (ConstraintMask_isDisplacementConstrainedZ_set cm b w))
       = snd (isDisplacementConstrainedZ_raw_set cm b (host w))
   \<and> host (snd (ConstraintMask_isRotationConstrainedX cm w))
       = snd (isRotationConstrainedX_raw cm (host w))
   \<and> host (snd (ConstraintMask_isRotationConstrainedX_set cm b w))
       = snd (isRotationConstrainedX_raw_set cm b (host w))
   \<and> host (snd (ConstraintMask_isRotationConstrainedY cm w))
       = snd (isRotationConstrainedY_raw cm (host w))
   \<and> host (snd (ConstraintMask_isRotationConstrainedY_set cm b w))
       = snd (isRotationConstrainedY_raw_set cm b (host w))
   \<and> host (snd (ConstraintMask_isRotationConstrainedZ cm w))
       = snd (isRotationConstrainedZ_raw cm (host w))
   \<and> host (snd (ConstraintMask_isRotationConstrainedZ_set cm b w))
       = snd (isRotationConstrainedZ_raw_set cm b (host w))
   \<and> host (snd (StructuralConstraint_type sc w))
       = snd (type_raw sc (host w))
   \<and> host (snd (StructuralConstraint_type_set sc t w))
       = snd (type_raw_set sc t (host w))
   \<and> host (snd (StructuralConstraint_mask sc w))
       = snd (mask_raw sc (host w))
   \<and> host (snd (StructuralConstraint_mask_set sc p w))
       = snd (mask_raw_set sc (get p) (host w))
   \<and> host (snd (StructuralConstraint_displacements sc w))
       = snd (displacements_raw sc (host w))
   \<and> host (snd (StructuralConstraint_displacements_set sc p w))
       = snd (displacements_raw_set sc (get p) (host w))
   \<and> host (snd (StructuralConstraint_rotations sc w))
       = snd (rotations_raw sc (host w))
   \<and> host (snd (StructuralConstraint_rotations_set sc p w))
       = snd (rotations_raw_set sc (get p) (host w))
   \<and> host (snd (SimAttribute_name attr w))
       = snd (name_raw attr (host w))
   \<and> host (snd (SimAttribute_name_set attr s w))
       = snd (name_raw_set attr (c_str s) (host w))
   \<and> host (snd (SimAttribute_inputEntities attr w))
       = snd (inputEntities_raw attr (host w))
   \<and> host (snd (SimAttribute_inputEntities_set attr ents w))
       = snd (inputEntities_raw_set attr (Some (map get ents)) (vector_size ents) (host w))
   \<and> host (snd (LoadCaseItems_item items k w))
       = snd (item_raw items k (host w))
   \<and> host (snd (LoadCaseItems_itemByName items s w))
       = snd (itemByName_raw items (c_str s) (host w))
   \<and> host (snd (LoadCaseItems_count items w))
       = snd (count_raw items (host w))
   \<and> host (snd (ConfigurationParameterCell_parentColumn cell w))
       = snd (parentColumn_raw cell (host w))
   \<and> host (snd (ConfigurationParameterCell_expression cell w))
       = snd (expression_raw cell (host w))
   \<and> host (snd (ConfigurationParameterCell_expression_set cell s w))
       = snd (expression_raw_set cell (c_str s) (host w))
   \<and> host (snd (ConfigurationParameterCell_value cell w))
       = snd (value_raw cell (host w))
   \<and> host (snd (ConfigurationParameterCell_value_set cell d w))
       = snd (value_raw_set cell d (host w))
   \<and> host (snd (AdditiveFEADeckBuilder_create db w))
       = snd (create_raw db (host w))
   \<and> host (snd (AdditiveFEADeckBuilder_createSTLMap db w))
       = snd (createSTLMap_raw db (host w))
   \<and> host (snd (AdditiveFEADeckBuilder_createConvection db w))
       = snd (createConvection_raw db (host w))
   \<and> host (snd (AdditiveFEADeckBuilder_append db p w))
       = snd (append_raw db (get p) (host w))
   \<and> host (snd (AdditiveFEADeckBuilder_createGenericCard db s s' w))
       = snd (createGenericCard_raw db (c_str s) (c_str s') (host w))
   \<and> host (snd (AdditiveFEADeckBuilder_createVoidCard db crd w))
       = snd (createVoidCard_raw db crd (host w))
   \<and> host (snd (AdditiveFEADeckBuilder_createIntCard db crd n w))
       = snd (createIntCard_raw db crd n (host w))
   \<and> host (snd (AdditiveFEADeckBuilder_createDoubleCard db crd d w))
       = snd (createDoubleCard_raw db crd d (host w))
   \<and> host (snd (AdditiveFEADeckBuilder_createStringCard db crd s w))
       = snd (createStringCard_raw db crd (c_str s) (host w))
   \<and> host (snd (AdditiveFEADeckBuilder_createStringArrayCard db crd strs w))
       = snd (createStringArrayCard_raw db crd (string_array strs) (vector_size strs) (host w))
   \<and> host (snd (AdditiveFEADeckBuilder_createBuildPlateZBoundsCard db d d' w))
       = snd (createBuildPlateZBoundsCard_raw db d d' (host w))
   \<and> host (snd (AdditiveFEADeckBuilder_createDiskCheckCard db n d w))
       = snd (createDiskCheckCard_raw db n d (host w))
   \<and> host (snd (AdditiveFEADeckBuilder_createSTLMapCard db p w))
       = snd (createSTLMapCard_raw db (get p) (host w))
   \<and> host (snd (AdditiveFEADeckBuilder_createConvectionCard db p w))
       = snd (createConvectionCard_raw db (get p) (host w))
   \<and> host (snd (AdditiveFEADeckBuilder_createBuildPlateXYExtensionCard db d d' d'' d''' w))
       = snd (createBuildPlateXYExtensionCard_raw db d d' d'' d''' (host w))
   \<and> host (snd (AdditiveFEADeckBuilder_cards db w))
       = snd (cards_raw db (host w))
   \<and> ((\<forall>h. obs (snd (count_raw coll h)) = obs h)
        \<and> (\<forall>i h. obs (snd (item_raw coll i h)) = obs h)
      \<longrightarrow> obs (host (snd (LoadCaseItems_copyTo coll out v))) = obs (host v))"
  using assms
  by (simp add: LoadCaseItems_copyTo_def copyTo_loop_frame
      wrapper_defs call_raw_def split_def Let_def raw_calls_append string_array_def
      marshalled_array string_getter_result vector_getter_result getter_raw_calls getter_host)

theorem public_method_changes_what_its_raw_call_changes_witness:
  "length [''a'', ''b''] < 2 ^ 64 \<and> length [Ptr (Some 1), Ptr None] < 2 ^ 64
   \<and> (\<forall>h. snd (snd (count_raw counting_items h)) = snd h)
   \<and> (\<forall>i h. snd (snd (item_raw counting_items i h)) = snd h)
   \<and> snd (host (snd (LoadCaseItems_copyTo counting_items []
        (start (0, 42) :: (nat \<times> nat, nat) world)))) = 42
   \<and> host (snd (AdditiveFEADeckBuilder_append (builder_returning (None, None)) (Ptr None)
        (start 5))) = 6"
  using public_method_changes_what_its_raw_call_changes
    [where strs = "[''a'', ''b'']" and ents = "[Ptr (Some 1), Ptr None]"
       and coll = counting_items and out = "[]" and obs = snd
       and v = "start (0, 42) :: (nat \<times> nat, nat) world"
       and db = "builder_returning (None, None)" and crd = "7 :: nat" and w = "start 5"
       and cm = "mask_returning True" and b = True
       and sc = "constraint_returning None" and t = 6 and p = "Ptr None"
       and attr = "attribute_returning None (None, None)" and s = "''x''" and s' = "''y''"
       and items = "items_of 2" and k = 1 and cell = "cell_returning None"
       and d = 1 and d' = 2 and d'' = 3 and d''' = 4 and n = 9]
  by (simp add: counting_items_def builder_returning_def mask_returning_def constraint_returning_def attribute_returning_def
      cell_returning_def items_of_def start_def string_array_def c_str_def vector_size_def)

section \<open>Array getters\<close>

text \<open>
  Claim C3: when \<open>cards_raw\<close> returns a non-null array \<open>p\<close> and reports the size \<open>s\<close> (the
  array holding the \<open>s\<close> entries it reports), \<open>cards()\<close> returns a vector of length exactly
  \<open>s\<close> whose \<open>i\<close>-th element, for every \<open>i < s\<close>, is the \<open>core::Ptr\<close> around \<open>p[i]\<close>, in the
  same order; and \<open>SimAttribute::inputEntities()\<close> does the same with
  \<open>inputEntities_raw\<close>.
\<close>

theorem array_getter_returns_the_reported_entries:
  "(fst (cards_raw db (host w)) = (Some p, Some s) \<and> unat s \<le> length p
      \<longrightarrow> (\<exists>res. fst (AdditiveFEADeckBuilder_cards db w) = Inr res
             \<and> length res = unat s \<and> (\<forall>i<unat s. res ! i = Ptr (p ! i))))
   \<and> (fst (inputEntities_raw attr (host w)) = (Some p', Some s') \<and> unat s' \<le> length p'
      \<longrightarrow> (\<exists>res. fst (SimAttribute_inputEntities attr w) = Inr res
             \<and> length res = unat s' \<and> (\<forall>i<unat s'. res ! i = Ptr (p' ! i))))"
  by (simp add: vector_getter_result vector_result_def assign_range_def)

theorem array_getter_returns_the_reported_entries_witness:
  "fst (cards_raw (builder_returning (Some [Some 7, None, Some 9, Some 4], Some 3))
          (host (start 5 :: (nat, nat) world)))
     = (Some [Some 7, None, Some 9, Some 4], Some 3)
   \<and> unat (3 :: size_t) \<le> length [Some 7, None, Some 9, Some (4 :: nat)]
   \<and> fst (inputEntities_raw (attribute_returning None (Some [Some 2], Some 1))
          (host (start 5 :: (nat, nat) world)))
     = (Some [Some 2], Some 1)
   \<and> unat (1 :: size_t) \<le> length [Some (2 :: nat)]
   \<and> (\<exists>res. fst (AdditiveFEADeckBuilder_cards
                   (builder_returning (Some [Some 7, None, Some 9, Some 4], Some 3))
                   (start 5 :: (nat, nat) world)) = Inr res
          \<and> length res = 3 \<and> res ! 0 = Ptr (Some 7) \<and> res ! 1 = Ptr None \<and> res ! 2 = Ptr (Some 9))
   \<and> (\<exists>res. fst (SimAttribute_inputEntities (attribute_returning None (Some [Some 2], Some 1))
                   (start 5 :: (nat, nat) world)) = Inr res
          \<and> length res = 1 \<and> res ! 0 = Ptr (Some 2))"
proof -
  let ?db = "builder_returning (Some [Some 7, None, Some 9, Some 4], Some 3)"
  let ?attr = "attribute_returning None (Some [Some 2], Some 1)"
  let ?w = "start 5 :: (nat, nat) world"
  have h: "fst (cards_raw ?db (host ?w)) = (Some [Some 7, None, Some 9, Some 4], Some 3)"
    "unat (3 :: size_t) \<le> length [Some 7, None, Some 9, Some (4 :: nat)]"
    "fst (inputEntities_raw ?attr (host ?w)) = (Some [Some 2], Some 1)"
    "unat (1 :: size_t) \<le> length [Some (2 :: nat)]"
    by (simp_all add: builder_returning_def attribute_returning_def)
  note inst = array_getter_returns_the_reported_entries
    [where db = ?db and w = ?w and p = "[Some 7, None, Some 9, Some 4]" and s = 3
       and attr = ?attr and p' = "[Some 2]" and s' = 1]
  from inst h obtain res where res: "fst (AdditiveFEADeckBuilder_cards ?db ?w) = Inr res"
    "length res = unat (3 :: size_t)"
    "\<forall>i<unat (3 :: size_t). res ! i = Ptr ([Some 7, None, Some 9, Some 4] ! i)"
    by blast
  from inst h obtain res' where res': "fst (SimAttribute_inputEntities ?attr ?w) = Inr res'"
    "length res' = unat (1 :: size_t)"
    "\<forall>i<unat (1 :: size_t). res' ! i = Ptr ([Some 2] ! i)"
    by blast
  have "res ! 0 = Ptr (Some 7)" "res ! 1 = Ptr None" "res ! 2 = Ptr (Some 9)"
    using res(3) [rule_format, of 0] res(3) [rule_format, of 1] res(3) [rule_format, of 2]
    by simp_all
  moreover have "res' ! 0 = Ptr (Some 2)"
    using res'(3) [rule_format, of 0] by simp
  ultimately show ?thesis
    using h res(1,2) res'(1,2) by simp
qed

section \<open>Vector setters\<close>

text \<open>
  Claim C4: for every input vector \<open>v\<close>, \<open>createStringArrayCard\<close> calls
  \<open>createStringArrayCard_raw\<close> with the size argument \<open>v.size()\<close> and with an array whose
  \<open>i\<close>-th entry, for every \<open>i < v.size()\<close>, is the C string of \<open>v[i]\<close>; \<open>inputEntities(v)\<close>
  calls \<open>inputEntities_raw\<close> with size \<open>v.size()\<close> and the raw pointer of \<open>v[i]\<close> as \<open>i\<close>-th
  entry; each returns the result of the raw method (the first in a \<open>core::Ptr\<close>). A
  \<open>std::vector\<close> has fewer than \<open>2 ^ 64\<close> elements.
\<close>

theorem vector_setter_marshals_every_element:
  "(length strs < 2 ^ 64
      \<longrightarrow> (\<exists>arr n.
             raw_calls (trace (snd (AdditiveFEADeckBuilder_createStringArrayCard db crd strs w)))
               = raw_calls (trace w)
                 @ [AdditiveFEADeckBuilder_raw (Call_createStringArrayCard_raw crd arr n)]
             \<and> n = vector_size strs \<and> unat n = length strs
             \<and> (\<forall>i<length strs.
                   \<exists>a. arr = Some a \<and> length a = length strs \<and> a ! i = c_str (strs ! i))
             \<and> fst (AdditiveFEADeckBuilder_createStringArrayCard db crd strs w)
                 = Ptr (fst (createStringArrayCard_raw db crd arr n (host w)))))
   \<and> (length ents < 2 ^ 64
      \<longrightarrow> (\<exists>arr n.
             raw_calls (trace (snd (SimAttribute_inputEntities_set attr ents w)))
               = raw_calls (trace w)
                 @ [SimAttribute_raw (Call_inputEntities_raw_set (Some arr) n)]
             \<and> n = vector_size ents \<and> unat n = length ents \<and> length arr = length ents
             \<and> (\<forall>i<length ents. arr ! i = get (ents ! i))
             \<and> fst (SimAttribute_inputEntities_set attr ents w)
                 = fst (inputEntities_raw_set attr (Some arr) n (host w))))"
  by (simp add: AdditiveFEADeckBuilder_createStringArrayCard_def SimAttribute_inputEntities_set_def
      call_raw_def split_def Let_def raw_calls_append marshalled_array unat_vector_size)

theorem vector_setter_marshals_every_element_witness:
  "length [''a'', ''b''] < 2 ^ 64 \<and> length [Ptr (Some 1), Ptr None] < 2 ^ 64
   \<and> (\<exists>a. raw_calls (trace (snd (AdditiveFEADeckBuilder_createStringArrayCard
               (builder_returning (None, None)) 7 [''a'', ''b''] (start 5))))
            = [AdditiveFEADeckBuilder_raw (Call_createStringArrayCard_raw 7 (Some a) 2)]
          \<and> length a = 2 \<and> a ! 0 = c_str ''a'' \<and> a ! 1 = c_str ''b'')
   \<and> (\<exists>a. raw_calls (trace (snd (SimAttribute_inputEntities_set
               (attribute_returning None (None, None)) [Ptr (Some 1), Ptr None]
               (start 5 :: (nat, nat) world))))
            = [SimAttribute_raw (Call_inputEntities_raw_set (Some a) 2)]
          \<and> length a = 2 \<and> a ! 0 = Some 1 \<and> a ! 1 = None)
   \<and> fst (SimAttribute_inputEntities_set (attribute_returning None (None, None))
        [Ptr (Some 1), Ptr None] (start 5 :: (nat, nat) world))"
proof -
  let ?db = "builder_returning (None, None)"
  let ?attr = "attribute_returning None (None, None)"
  let ?w = "start 5 :: (nat, nat) world"
  have h: "length [''a'', ''b''] < 2 ^ 64" "length [Ptr (Some 1), Ptr None] < 2 ^ 64"
    by simp_all
  note inst = vector_setter_marshals_every_element
    [where strs = "[''a'', ''b'']" and ents = "[Ptr (Some 1), Ptr None]"
       and db = ?db and crd = "7 :: nat" and w = ?w and attr = ?attr]
  from inst [THEN conjunct1, rule_format, OF h(1)] obtain arr n where strs:
    "raw_calls (trace (snd (AdditiveFEADeckBuilder_createStringArrayCard ?db 7 [''a'', ''b''] ?w)))
       = raw_calls (trace ?w) @ [AdditiveFEADeckBuilder_raw (Call_createStringArrayCard_raw 7 arr n)]"
    "n = vector_size [''a'', ''b'']"
    "\<forall>i<length [''a'', ''b''].
        \<exists>a. arr = Some a \<and> length a = length [''a'', ''b''] \<and> a ! i = c_str ([''a'', ''b''] ! i)"
    by (elim exE conjE) (rule that)
  from strs(3) [rule_format, of 0] strs(3) [rule_format, of 1]
  obtain a where a: "arr = Some a" "length a = 2" "a ! 0 = c_str ''a''" "a ! 1 = c_str ''b''"
    by auto
  from inst [THEN conjunct2, rule_format, OF h(2)] obtain arr' n' where ents:
    "raw_calls (trace (snd (SimAttribute_inputEntities_set ?attr [Ptr (Some 1), Ptr None] ?w)))
       = raw_calls (trace ?w) @ [SimAttribute_raw (Call_inputEntities_raw_set (Some arr') n')]"
    "n' = vector_size [Ptr (Some 1), Ptr None]"
    "length arr' = length [Ptr (Some 1), Ptr None]"
    "\<forall>i<length [Ptr (Some 1), Ptr None]. arr' ! i = get ([Ptr (Some 1), Ptr None] ! i)"
    "fst (SimAttribute_inputEntities_set ?attr [Ptr (Some 1), Ptr None] ?w)
       = fst (inputEntities_raw_set ?attr (Some arr') n' (host ?w))"
    by (elim exE conjE) (rule that)
  have a': "arr' ! 0 = Some 1" "arr' ! 1 = None"
    using ents(4) [rule_format, of 0] ents(4) [rule_format, of 1] by simp_all
  have "fst (SimAttribute_inputEntities_set ?attr [Ptr (Some 1), Ptr None] ?w)"
    using ents(5) by (simp add: attribute_returning_def)
  then show ?thesis
    using h strs(1,2) a ents(1,2,3) a' by (simp add: vector_size_def start_def)
qed

section \<open>Strings\<close>

text \<open>
  Claim C5: when \<open>name_raw\<close> returns a non-null C string \<open>p\<close>, \<open>name()\<close> returns the string
  of the characters of \<open>p\<close>, those before its terminator, and so does \<open>expression()\<close> with
  \<open>expression_raw\<close>; a string without terminator that the host returns as the setter sent
  it comes back as it was. On the setter side the raw method receives the C string of the
  argument: the same characters, followed by the terminator.
\<close>

theorem string_marshalling_keeps_the_characters:
  "(fst (name_raw attr (host w)) = Some buf \<and> NUL \<in> set buf
      \<longrightarrow> (\<exists>r rest. fst (SimAttribute_name attr w) = Inr r
             \<and> buf = r @ NUL # rest \<and> NUL \<notin> set r))
   \<and> (fst (expression_raw cell (host w)) = Some buf' \<and> NUL \<in> set buf'
      \<longrightarrow> (\<exists>r rest. fst (ConfigurationParameterCell_expression cell w) = Inr r
             \<and> buf' = r @ NUL # rest \<and> NUL \<notin> set r))
   \<and> (fst (name_raw attr (host w)) = c_str s \<and> NUL \<notin> set s
      \<longrightarrow> fst (SimAttribute_name attr w) = Inr s)
   \<and> (fst (expression_raw cell (host w)) = c_str s' \<and> NUL \<notin> set s'
      \<longrightarrow> fst (ConfigurationParameterCell_expression cell w) = Inr s')
   \<and> raw_calls (trace (snd (SimAttribute_name_set attr val w)))
       = raw_calls (trace w) @ [SimAttribute_raw (Call_name_raw_set (Some (val @ [NUL])))]
   \<and> fst (SimAttribute_name_set attr val w) = fst (name_raw_set attr (Some (val @ [NUL])) (host w))
   \<and> raw_calls (trace (snd (ConfigurationParameterCell_expression_set cell val' w)))
       = raw_calls (trace w)
         @ [ConfigurationParameterCell_raw (Call_expression_raw_set (Some (val' @ [NUL])))]
   \<and> fst (ConfigurationParameterCell_expression_set cell val' w)
       = fst (expression_raw_set cell (Some (val' @ [NUL])) (host w))"
  using string_assign_terminated [of buf] string_assign_terminated [of buf']
  by (simp add: string_getter_result string_result_def string_assign_c_str c_str_def
      SimAttribute_name_set_def ConfigurationParameterCell_expression_set_def
      call_raw_def split_def Let_def raw_calls_append)

theorem string_marshalling_keeps_the_characters_witness:
  "fst (name_raw (attribute_returning (Some (''top'' @ [NUL] @ ''xy'')) (None, None))
          (host (start 5 :: (nat, nat) world))) = Some (''top'' @ [NUL] @ ''xy'')
   \<and> NUL \<in> set (''top'' @ [NUL] @ ''xy'')
   \<and> fst (SimAttribute_name (attribute_returning (Some (''top'' @ [NUL] @ ''xy'')) (None, None))
          (start 5 :: (nat, nat) world)) = Inr ''top''
   \<and> fst (expression_raw (cell_returning (c_str ''d1 * 2''))
          (host (start 5 :: (nat, nat) world))) = c_str ''d1 * 2''
   \<and> NUL \<notin> set ''d1 * 2''
   \<and> fst (ConfigurationParameterCell_expression (cell_returning (c_str ''d1 * 2''))
          (start 5 :: (nat, nat) world)) = Inr ''d1 * 2''"
  using string_marshalling_keeps_the_characters
    [where attr = "attribute_returning (Some (''top'' @ [NUL] @ ''xy'')) (None, None)"
       and w = "start 5 :: (nat, nat) world" and buf = "''top'' @ [NUL] @ ''xy''"
       and cell = "cell_returning (c_str ''d1 * 2'')" and s' = "''d1 * 2''"
       and buf' = "''d1 * 2'' @ [NUL]" and s = "''''" and val = "''''" and val' = "''''"]
  by (auto simp add: attribute_returning_def cell_returning_def start_def c_str_def NUL_def
      append_eq_Cons_conv Cons_eq_append_conv)

text \<open>
  Claim C8: when a string-returning raw method returns the null pointer, the public getter
  returns the empty string and signals nothing: \<open>name()\<close> is \<open>""\<close> when \<open>name_raw()\<close> is
  null, \<open>expression()\<close> is \<open>""\<close> when \<open>expression_raw()\<close> is null. An object whose raw
  getter returns the empty C string gives the same result, so the failed raw call cannot
  be told from an empty value.
\<close>

theorem null_string_reads_as_empty:
  "(fst (name_raw attr (host w)) = None \<longrightarrow> fst (SimAttribute_name attr w) = Inr [])
   \<and> (fst (expression_raw cell (host w)) = None
      \<longrightarrow> fst (ConfigurationParameterCell_expression cell w) = Inr [])
   \<and> (fst (name_raw attr (host w)) = None \<and> fst (name_raw attr' (host w')) = c_str []
      \<longrightarrow> fst (SimAttribute_name attr' w') = fst (SimAttribute_name attr w))
   \<and> (fst (expression_raw cell (host w)) = None \<and> fst (expression_raw cell' (host w')) = c_str []
      \<longrightarrow> fst (ConfigurationParameterCell_expression cell' w')
          = fst (ConfigurationParameterCell_expression cell w))"
  by (simp add: string_getter_result string_result_def string_assign_def c_str_def)

theorem null_string_reads_as_empty_witness:
  "fst (name_raw (attribute_returning None (None, None)) (host (start 5 :: (nat, nat) world))) = None
   \<and> fst (name_raw (attribute_returning (c_str []) (None, None))
          (host (start 8 :: (nat, nat) world))) = c_str []
   \<and> fst (expression_raw (cell_returning None) (host (start 5 :: (nat, nat) world))) = None
   \<and> fst (expression_raw (cell_returning (c_str [])) (host (start 8 :: (nat, nat) world))) = c_str []
   \<and> fst (SimAttribute_name (attribute_returning None (None, None))
          (start 5 :: (nat, nat) world)) = Inr []
   \<and> fst (SimAttribute_name (attribute_returning (c_str []) (None, None))
          (start 8 :: (nat, nat) world)) = Inr []
   \<and> fst (ConfigurationParameterCell_expression (cell_returning None)
          (start 5 :: (nat, nat) world)) = Inr []
   \<and> fst (ConfigurationParameterCell_expression (cell_returning (c_str []))
          (start 8 :: (nat, nat) world)) = Inr []"
  using null_string_reads_as_empty
    [where attr = "attribute_returning None (None, None)" and w = "start 5 :: (nat, nat) world"
       and attr' = "attribute_returning (c_str []) (None, None)"
       and w' = "start 8 :: (nat, nat) world"
       and cell = "cell_returning None" and cell' = "cell_returning (c_str [])"]
  by (simp add: attribute_returning_def cell_returning_def start_def)

section \<open>A null array\<close>

text \<open>
  Claim C9: when an array-returning raw method returns the null pointer, the public getter
  returns the empty vector whatever became of the size parameter, also when the raw call
  left it unassigned: \<open>cards()\<close> is empty when \<open>cards_raw\<close> returns null, and
  \<open>inputEntities()\<close> is empty when \<open>inputEntities_raw\<close> returns null. The size is read
  only behind a non-null pointer; there an unassigned size is an indeterminate read.
\<close>

theorem null_array_reads_as_empty:
  "(fst (cards_raw db (host w)) = (None, sz)
      \<longrightarrow> fst (AdditiveFEADeckBuilder_cards db w) = Inr [])
   \<and> (fst (inputEntities_raw attr (host w)) = (None, sz')
      \<longrightarrow> fst (SimAttribute_inputEntities attr w) = Inr [])
   \<and> (fst (cards_raw db (host w)) = (Some p, None)
      \<longrightarrow> fst (AdditiveFEADeckBuilder_cards db w) = Inl ReadIndeterminate)
   \<and> (fst (inputEntities_raw attr (host w)) = (Some p', None)
      \<longrightarrow> fst (SimAttribute_inputEntities attr w) = Inl ReadIndeterminate)"
  by (simp add: vector_getter_result vector_result_def assign_range_def)

theorem null_array_reads_as_empty_witness:
  "fst (cards_raw (builder_returning (None, None)) (host (start 5 :: (nat, nat) world)))
     = (None, None)
   \<and> fst (inputEntities_raw (attribute_returning None (None, Some 3))
          (host (start 5 :: (nat, nat) world))) = (None, Some 3)
   \<and> fst (AdditiveFEADeckBuilder_cards (builder_returning (None, None))
          (start 5 :: (nat, nat) world)) = Inr []
   \<and> fst (SimAttribute_inputEntities (attribute_returning None (None, Some 3))
          (start 5 :: (nat, nat) world)) = Inr []"
  using null_array_reads_as_empty
    [where db = "builder_returning (None, None)" and w = "start 5 :: (nat, nat) world"
       and sz = None and attr = "attribute_returning None (None, Some 3)" and sz' = "Some 3"
       and p = "[]" and p' = "[]"]
  by (simp add: builder_returning_def attribute_returning_def start_def)

section \<open>Enumerating a collection\<close>

text \<open>
  Claim C10: for a \<open>LoadCaseItems\<close> collection in a fixed state (the host state is left as
  it is by \<open>count_raw\<close> and by \<open>item_raw\<close> at the indices below the count), \<open>copyTo\<close> writes
  exactly \<open>count()\<close> elements to the output iterator, and for every \<open>i < count()\<close> the
  \<open>i\<close>-th element written is \<open>item(i)\<close>: the collection is enumerated by increasing index
  from 0.
\<close>

theorem copyTo_writes_every_item_in_order:
  assumes "count_raw items (host w) = (n, host w)"
    and "\<forall>i<n. snd (item_raw items i (host w)) = host w"
  shows "\<exists>written. fst (LoadCaseItems_copyTo items result w) = result @ written
           \<and> length written = unat (fst (LoadCaseItems_count items w))
           \<and> (\<forall>i<length written.
                 written ! i = fst (LoadCaseItems_item items (of_nat i) w))"
proof -
  let ?written = "map (\<lambda>k. Ptr (fst (item_raw items (of_nat k) (host w)))) [0..<unat n]"
  have "fst (LoadCaseItems_copyTo items result w) = result @ ?written"
    using copyTo_loop_fixed [OF assms refl, of 0 result]
    by (simp add: LoadCaseItems_copyTo_def)
  moreover have "fst (LoadCaseItems_count items w) = n"
    using assms(1) by (simp add: LoadCaseItems_count_def call_raw_def)
  moreover have "fst (LoadCaseItems_item items k w) = Ptr (fst (item_raw items k (host w)))" for k
    by (simp add: LoadCaseItems_item_def call_raw_def split_def Let_def)
  ultimately show ?thesis
    by simp
qed

theorem copyTo_writes_every_item_in_order_witness:
  "count_raw (items_of 3) (host (start 0 :: (nat, nat) world))
     = (3, host (start 0 :: (nat, nat) world))
   \<and> (\<forall>i. snd (item_raw (items_of 3) i (host (start 0 :: (nat, nat) world)))
             = host (start 0 :: (nat, nat) world))
   \<and> (\<exists>written. fst (LoadCaseItems_copyTo (items_of 3) [Ptr None] (start 0 :: (nat, nat) world))
                    = [Ptr None] @ written
          \<and> length written = 3
          \<and> written ! 0 = Ptr (Some 100) \<and> written ! 1 = Ptr (Some 101)
          \<and> written ! 2 = Ptr (Some 102))"
proof -
  let ?w = "start 0 :: (nat, nat) world"
  have c: "count_raw (items_of 3) (host ?w) = (3, host ?w)"
    by (simp add: items_of_def)
  have a: "\<forall>i. snd (item_raw (items_of 3) i (host ?w)) = host ?w"
    by (simp add: items_of_def)
  then have i: "\<forall>i<3. snd (item_raw (items_of 3) i (host ?w)) = host ?w"
    by simp
  obtain written where w:
    "fst (LoadCaseItems_copyTo (items_of 3) [Ptr None] ?w) = [Ptr None] @ written"
    "length written = unat (fst (LoadCaseItems_count (items_of 3) ?w))"
    "\<forall>i<length written. written ! i = fst (LoadCaseItems_item (items_of 3) (of_nat i) ?w)"
    using copyTo_writes_every_item_in_order [OF c i, of "[Ptr None]"] by blast
  have len: "length written = 3"
    using w(2) by (simp add: LoadCaseItems_count_def call_raw_def items_of_def)
  have "written ! 0 = Ptr (Some 100)" "written ! 1 = Ptr (Some 101)" "written ! 2 = Ptr (Some 102)"
    using w(3) [rule_format, of 0] w(3) [rule_format, of 1] w(3) [rule_format, of 2] len
    by (simp_all add: LoadCaseItems_item_def call_raw_def items_of_def)
  then show ?thesis
    using c a w(1) len by simp
qed

end
